theory Spec2Isabelle
  imports Main "HOL-Library.Sublist"
begin

section \<open>JavaScript values and strings\<close>

text \<open>
  Plain data as the program receives it in \<open>body\<close>, \<open>searchParams\<close> and constructor
  arguments: scalars, arrays and objects. An object is the list of its own enumerable
  properties in iteration order. Numbers are the integer-valued ones (ids, counts, page
  numbers); fractional numbers, \<open>NaN\<close> and the exponent notation that JavaScript uses from
  \<open>1e21\<close> on are outside the model. Strings are byte strings.
\<close>

datatype jsvalue =
    JNull
  | JBool bool
  | JNum int
  | JStr string
  | JArr "jsvalue list"
  | JObj "(string \<times> jsvalue) list"

definition digit_char :: "nat \<Rightarrow> char" where
  "digit_char d = ''0123456789'' ! d"

fun string_of_nat :: "nat \<Rightarrow> string" where
  "string_of_nat n =
     (if n < 10 then [digit_char n] else string_of_nat (n div 10) @ [digit_char (n mod 10)])"

declare string_of_nat.simps [simp del]

text \<open>\<open>String(n)\<close> and \<open>`${n}`\<close> for an integer-valued number.\<close>

definition number_to_string :: "int \<Rightarrow> string" where
  "number_to_string i =
     (if i < 0 then CHR ''-'' # string_of_nat (nat (- i)) else string_of_nat (nat i))"

definition upper_table :: "(char \<times> char) list" where
  "upper_table = zip ''abcdefghijklmnopqrstuvwxyz'' ''ABCDEFGHIJKLMNOPQRSTUVWXYZ''"

definition lower_table :: "(char \<times> char) list" where
  "lower_table = zip ''ABCDEFGHIJKLMNOPQRSTUVWXYZ'' ''abcdefghijklmnopqrstuvwxyz''"

text \<open>\<open>String.prototype.toUpperCase\<close> on ASCII text (the verb names).\<close>

definition toUpperCase :: "string \<Rightarrow> string" where
  "toUpperCase s = map (\<lambda>c. case map_of upper_table c of Some u \<Rightarrow> u | None \<Rightarrow> c) s"

text \<open>\<open>Array.prototype.join\<close>.\<close>

fun join :: "string \<Rightarrow> string list \<Rightarrow> string" where
  "join sep [] = []"
| "join sep [x] = x"
| "join sep (x # y # ys) = x @ sep @ join sep (y # ys)"

subsection \<open>Objects: property assignment and spread\<close>

text \<open>
  \<open>o[k] = v\<close> on a plain object overwrites an own property in place or appends a new
  one. \<open>{...a, ...b}\<close> assigns the own properties of \<open>a\<close>, then those of \<open>b\<close>, to a fresh
  object. The reordering of integer-like keys and the inherited accessor \<open>__proto__\<close>
  are outside the model.
\<close>

fun obj_set :: "(string \<times> 'v) list \<Rightarrow> string \<Rightarrow> 'v \<Rightarrow> (string \<times> 'v) list" where
  "obj_set [] k v = [(k, v)]"
| "obj_set ((k', v') # ps) k v = (if k' = k then (k, v) # ps else (k', v') # obj_set ps k v)"

definition spread :: "(string \<times> 'v) list \<Rightarrow> (string \<times> 'v) list \<Rightarrow> (string \<times> 'v) list" where
  "spread target source = foldl (\<lambda>obj (k, v). obj_set obj k v) target source"

text \<open>The own enumerable properties that a spread of any value copies.\<close>

fun own_entries :: "jsvalue \<Rightarrow> (string \<times> jsvalue) list" where
  "own_entries (JObj ps) = ps"
| "own_entries (JArr xs) = zip (map string_of_nat [0..<length xs]) xs"
| "own_entries (JStr s) = zip (map string_of_nat [0..<length s]) (map (\<lambda>c. JStr [c]) s)"
| "own_entries v = []"

subsection \<open>\<open>JSON.stringify\<close>\<close>

definition hex_digit :: "nat \<Rightarrow> char" where
  "hex_digit d = ''0123456789abcdef'' ! d"

definition json_escape :: "char \<Rightarrow> string" where
  "json_escape c =
     (if c = CHR 0x22 then [CHR 0x5C, CHR 0x22]
      else if c = CHR 0x5C then [CHR 0x5C, CHR 0x5C]
      else if c = CHR 0x08 then [CHR 0x5C, CHR ''b'']
      else if c = CHR 0x0C then [CHR 0x5C, CHR ''f'']
      else if c = CHR 0x0A then [CHR 0x5C, CHR ''n'']
      else if c = CHR 0x0D then [CHR 0x5C, CHR ''r'']
      else if c = CHR 0x09 then [CHR 0x5C, CHR ''t'']
      else if (of_char c :: nat) < 32
        then [CHR 0x5C, CHR ''u'', CHR ''0'', CHR ''0'',
              hex_digit (of_char c div 16), hex_digit (of_char c mod 16)]
      else [c])"

definition json_quote :: "string \<Rightarrow> string" where
  "json_quote s = [CHR 0x22] @ concat (map json_escape s) @ [CHR 0x22]"

fun JSON_stringify :: "jsvalue \<Rightarrow> string" where
  "JSON_stringify JNull = ''null''"
| "JSON_stringify (JBool b) = (if b then ''true'' else ''false'')"
| "JSON_stringify (JNum n) = number_to_string n"
| "JSON_stringify (JStr s) = json_quote s"
| "JSON_stringify (JArr xs) = ''['' @ join '','' (map JSON_stringify xs) @ '']''"
| "JSON_stringify (JObj ps) =
     ''{'' @ join '','' (map (\<lambda>(k, v). json_quote k @ '':'' @ JSON_stringify v) ps) @ ''}''"

section \<open>The libraries \<open>xcase\<close> and \<open>qs\<close>\<close>

text \<open>
  Modelled from the spec: \<open>decamelizeKeys\<close> of the package \<open>xcase\<close>, of which the
  repository holds the declaration only. The spec: every key of the mapping, the keys of
  nested mappings included, goes from camelCase to snake_case. Each upper-case letter
  becomes an underscore and its lower-case letter.
\<close>

definition decamelize :: "string \<Rightarrow> string" where
  "decamelize s =
     concat (map (\<lambda>c. case map_of lower_table c of Some l \<Rightarrow> [CHR ''_'', l] | None \<Rightarrow> [c]) s)"

text \<open>
  Modelled from the spec: the recursion of \<open>decamelizeKeys\<close> of \<open>xcase\<close> over the value;
  it renames the keys of every mapping, also inside arrays, and keeps the scalars. The
  result of a mapping is a mapping again: each value is assigned under its new key, so
  of two keys that decamelize to one name the first keeps its place and the last its
  value.
\<close>

fun decamelizeKeys :: "jsvalue \<Rightarrow> jsvalue" where
  "decamelizeKeys (JArr xs) = JArr (map decamelizeKeys xs)"
| "decamelizeKeys (JObj ps) =
     JObj (spread [] (map (\<lambda>(k, v). (decamelize k, decamelizeKeys v)) ps))"
| "decamelizeKeys v = v"

text \<open>
  Modelled from the spec: \<open>stringify\<close> of the package \<open>qs\<close> with
  \<open>arrayFormat: 'brackets'\<close>, which the repository imports and does not hold. The spec: the
  result is a URL-encoded query string; an array-valued field is rendered with repeated
  segments \<open>key[]=v\<close>; a nested object expands to bracketed paths; the empty mapping gives
  the empty string. URL encoding is percent-encoding of every byte outside the unreserved
  set, applied to each key and to each scalar; the brackets are written as the spec
  shows them. A scalar is rendered by its text, \<open>null\<close> by the empty text.
\<close>

definition unreserved :: "char \<Rightarrow> bool" where
  "unreserved c \<longleftrightarrow>
     c \<in> set ''ABCDEFGHIJKLMNOPQRSTUVWXYZabcdefghijklmnopqrstuvwxyz0123456789-_.~''"

text \<open>
  Modelled from the spec: the URL encoding inside \<open>stringify\<close> of \<open>qs\<close>, as
  percent-encoding with upper-case hexadecimal digits.
\<close>

definition upper_hex_digit :: "nat \<Rightarrow> char" where
  "upper_hex_digit d = ''0123456789ABCDEF'' ! d"

definition percent_encode :: "string \<Rightarrow> string" where
  "percent_encode s =
     concat (map (\<lambda>c. if unreserved c then [c]
                       else [CHR ''%'', upper_hex_digit (of_char c div 16),
                             upper_hex_digit (of_char c mod 16)]) s)"

text \<open>
  Modelled from the spec: the text that \<open>stringify\<close> of \<open>qs\<close> writes for a scalar.
\<close>

fun scalar_text :: "jsvalue \<Rightarrow> string" where
  "scalar_text (JStr s) = s"
| "scalar_text (JNum n) = number_to_string n"
| "scalar_text (JBool b) = (if b then ''true'' else ''false'')"
| "scalar_text v = []"

text \<open>
  Modelled from the spec: the segments that \<open>stringify\<close> of \<open>qs\<close> writes for the value at
  a path: \<open>path[]\<close> for the elements of an array, \<open>path[key]\<close> for the fields of a nested
  object, \<open>path=text\<close> for a scalar.
\<close>

fun stringify_value :: "string \<Rightarrow> jsvalue \<Rightarrow> string list" where
  "stringify_value path (JArr xs) = concat (map (stringify_value (path @ ''[]'')) xs)"
| "stringify_value path (JObj ps) =
     concat (map (\<lambda>(k, v). stringify_value (path @ ''['' @ percent_encode k @ '']'') v) ps)"
| "stringify_value path v = [path @ ''='' @ percent_encode (scalar_text v)]"

text \<open>
  Modelled from the spec: \<open>stringify\<close> of \<open>qs\<close> on a mapping, the segments of its fields
  joined by \<open>&\<close>.
\<close>

definition segments :: "(string \<times> jsvalue) list \<Rightarrow> string list" where
  "segments ps = concat (map (\<lambda>(k, v). stringify_value (percent_encode k) v) ps)"

fun stringify :: "jsvalue \<Rightarrow> string" where
  "stringify (JObj ps) = join ''&'' (segments ps)"
| "stringify v = []"

section \<open>The query formatter\<close>

text \<open>\<open>formatQuery(params = {})\<close>: an absent argument is the empty mapping.\<close>

definition formatQuery :: "(string \<times> jsvalue) list option \<Rightarrow> string" where
  "formatQuery params =
     (let decamelized = decamelizeKeys (JObj (case params of None \<Rightarrow> [] | Some ps \<Rightarrow> ps))
      in stringify decamelized)"

section \<open>State: objects by reference and the outside world\<close>

text \<open>
  A header mapping is an object that the program reaches by reference, copies and
  assigns to, so header objects live in a store and are named by their address; a fresh
  object gets the next address. Everything the injected functions act on (the network,
  a token cache, a log of calls) is the component \<open>world\<close>. An asynchronous function is a
  function of the state that gives the state after it settled and either the value it
  resolved to (\<open>Inr\<close>) or the error it was rejected with (\<open>Inl\<close>). An auth-header
  function takes no argument, so it holds no reference into the store and acts on the
  world alone.
\<close>

type_synonym addr = nat

type_synonym header_object = "string \<rightharpoonup> string"

record 'w js_state =
  heap :: "header_object list"
  world :: 'w

definition deref :: "'w js_state \<Rightarrow> addr \<Rightarrow> header_object" where
  "deref s a = (if a < length (heap s) then heap s ! a else Map.empty)"

text \<open>\<open>{ ...o }\<close> for a header object: a fresh object with the same entries.\<close>

definition spread_copy :: "addr \<Rightarrow> 'w js_state \<Rightarrow> addr \<times> 'w js_state" where
  "spread_copy a s = (length (heap s), s\<lparr>heap := heap s @ [deref s a]\<rparr>)"

text \<open>\<open>o[k] = v\<close> for the header object at an address.\<close>

definition set_property :: "addr \<Rightarrow> string \<Rightarrow> string \<Rightarrow> 'w js_state \<Rightarrow> 'w js_state" where
  "set_property a k v s = s\<lparr>heap := (heap s)[a := (deref s a)(k \<mapsto> v)]\<rparr>"

section \<open>The types of the module\<close>

type_synonym agent = nat

type_synonym signal = nat

type_synonym formdata = nat

datatype rate_limit = Limit nat | MethodLimit string nat

record ('w, 'e) ResourceOptions =
  headers :: addr
  authHeaders :: "(string \<times> ('w \<Rightarrow> ('e + string) \<times> 'w)) list"
  url :: string
  rateLimits :: "(string \<times> rate_limit) list option"
  rateLimitDuration :: "nat option"
  agent :: "agent option"

text \<open>
  \<open>body?: FormData | Record<string, unknown>\<close>: a multipart form, known by its
  reference, or a plain object. \<open>sudo?: string | number\<close>.
\<close>

datatype request_body = FormData formdata | PlainObject "(string \<times> jsvalue) list"

datatype sudo_value = SudoString string | SudoNumber int

record DefaultRequestOptions =
  body :: "request_body option"
  searchParams :: "(string \<times> jsvalue) list option"
  sudo :: "sudo_value option"
  method' :: "string option"
  asStream :: "bool option"
  signal :: "signal option"

text \<open>
  \<open>body?: string | FormData\<close> of the transport-ready options. The field \<open>method\<close> of
  both option types is written \<open>method'\<close>.
\<close>

datatype encoded_body = BodyString string | BodyFormData formdata

record RequestOptions =
  headers :: "addr option"
  timeout :: "nat option"
  method' :: "string option"
  searchParams :: "string option"
  prefixUrl :: "string option"
  body :: "encoded_body option"
  asStream :: "bool option"
  signal :: "signal option"
  agent :: "agent option"

record FormattedResponse =
  body :: jsvalue
  headers :: header_object
  status :: int

text \<open>The truth value of a \<open>sudo\<close> in \<open>if (sudo)\<close> and its text in \<open>`${sudo}`\<close>.\<close>

fun truthy :: "sudo_value \<Rightarrow> bool" where
  "truthy (SudoString s) = (s \<noteq> [])"
| "truthy (SudoNumber n) = (n \<noteq> 0)"

fun template_string :: "sudo_value \<Rightarrow> string" where
  "template_string (SudoString s) = s"
| "template_string (SudoNumber n) = number_to_string n"

section \<open>The default option builder\<close>

text \<open>
  \<open>defaultOptionsHandler\<close>, statement by statement. The parameter defaults are
  \<open>asStream = false\<close> and \<open>method = 'GET'\<close>. The \<open>await\<close> of the auth-header function is
  the one place where the function can be rejected; the state then keeps what was done
  before. A body is an object, so \<open>if (body)\<close> holds whenever a body is present.
\<close>

definition defaultOptionsHandler ::
  "('w, 'e) ResourceOptions \<Rightarrow> DefaultRequestOptions \<Rightarrow> 'w js_state
     \<Rightarrow> ('e + RequestOptions) \<times> 'w js_state" where
  "defaultOptionsHandler resourceOptions callOptions s =
     (let method = (case DefaultRequestOptions.method' callOptions of
                      None \<Rightarrow> ''GET'' | Some m \<Rightarrow> m);
          asStream = (case DefaultRequestOptions.asStream callOptions of
                        None \<Rightarrow> False | Some b \<Rightarrow> b);
          (h, s1) = spread_copy (ResourceOptions.headers resourceOptions) s;
          defaultOptions =
            \<lparr> RequestOptions.headers = Some h,
              RequestOptions.timeout = None,
              RequestOptions.method' = Some method,
              RequestOptions.searchParams = None,
              RequestOptions.prefixUrl = Some (ResourceOptions.url resourceOptions),
              RequestOptions.body = None,
              RequestOptions.asStream = Some asStream,
              RequestOptions.signal = DefaultRequestOptions.signal callOptions,
              RequestOptions.agent = ResourceOptions.agent resourceOptions \<rparr>;
          s2 = (case DefaultRequestOptions.sudo callOptions of
                  None \<Rightarrow> s1
                | Some v \<Rightarrow>
                    if truthy v then set_property h ''sudo'' (template_string v) s1 else s1);
          (defaultOptions, s3) =
            (case DefaultRequestOptions.body callOptions of
               None \<Rightarrow> (defaultOptions, s2)
             | Some (FormData f) \<Rightarrow>
                 (defaultOptions\<lparr>RequestOptions.body := Some (BodyFormData f)\<rparr>, s2)
             | Some (PlainObject b) \<Rightarrow>
                 (defaultOptions\<lparr>RequestOptions.body :=
                    Some (BodyString (JSON_stringify (decamelizeKeys (JObj b))))\<rparr>,
                  set_property h ''content-type'' ''application/json'' s2))
      in case (case ResourceOptions.authHeaders resourceOptions of
                 [] \<Rightarrow> (Inr (), s3)
               | (authHeaderKey, authHeaderFn) # _ \<Rightarrow>
                   (case authHeaderFn (world s3) of
                      (Inl e, w) \<Rightarrow> (Inl e, s3\<lparr>world := w\<rparr>)
                    | (Inr v, w) \<Rightarrow> (Inr (), set_property h authHeaderKey v (s3\<lparr>world := w\<rparr>))))
         of
           (Inl e, s4) \<Rightarrow> (Inl e, s4)
         | (Inr _, s4) \<Rightarrow>
             (let q = formatQuery (DefaultRequestOptions.searchParams callOptions)
              in (Inr (if q \<noteq> [] then defaultOptions\<lparr>RequestOptions.searchParams := Some q\<rparr>
                       else defaultOptions), s4)))"

section \<open>The requester factory\<close>

type_synonym ('w, 'e) OptionsHandlerFn =
  "('w, 'e) ResourceOptions \<Rightarrow> RequestOptions \<Rightarrow> 'w js_state
     \<Rightarrow> ('e + RequestOptions) \<times> 'w js_state"

type_synonym ('w, 'e) RequestHandlerFn =
  "string \<Rightarrow> RequestOptions \<Rightarrow> 'w js_state \<Rightarrow> ('e + FormattedResponse) \<times> 'w js_state"

type_synonym ('w, 'e) verb_method =
  "string \<Rightarrow> DefaultRequestOptions option \<Rightarrow> 'w js_state
     \<Rightarrow> ('e + FormattedResponse) \<times> 'w js_state"

definition methods :: "string list" where
  "methods = [''get'', ''post'', ''put'', ''patch'', ''delete'']"

text \<open>The object \<open>{}\<close> as call options.\<close>

definition no_options :: DefaultRequestOptions where
  "no_options =
     \<lparr> DefaultRequestOptions.body = None,
       DefaultRequestOptions.searchParams = None,
       DefaultRequestOptions.sudo = None,
       DefaultRequestOptions.method' = None,
       DefaultRequestOptions.asStream = None,
       DefaultRequestOptions.signal = None \<rparr>"

text \<open>\<open>{ ...options, method: m }\<close>; the spread of \<open>undefined\<close> copies nothing.\<close>

definition spread_method :: "DefaultRequestOptions option \<Rightarrow> string \<Rightarrow> DefaultRequestOptions" where
  "spread_method options m =
     (case options of None \<Rightarrow> no_options | Some opts \<Rightarrow> opts)
       \<lparr>DefaultRequestOptions.method' := Some m\<rparr>"

text \<open>
  The asynchronous function stored under the verb \<open>m\<close>. Each \<open>await\<close> passes a rejection
  on as it is; \<open>{ ...requestOptions }\<close> copies the fields, the header reference among
  them.
\<close>

definition requesterMethod ::
  "('w, 'e) OptionsHandlerFn \<Rightarrow> ('w, 'e) RequestHandlerFn \<Rightarrow> ('w, 'e) ResourceOptions
     \<Rightarrow> string \<Rightarrow> ('w, 'e) verb_method" where
  "requesterMethod optionsHandler requestHandler serviceOptions m endpoint options s =
     (case defaultOptionsHandler serviceOptions (spread_method options (toUpperCase m)) s of
        (Inl e, s1) \<Rightarrow> (Inl e, s1)
      | (Inr defaultRequestOptions, s1) \<Rightarrow>
          (case optionsHandler serviceOptions defaultRequestOptions s1 of
             (Inl e, s2) \<Rightarrow> (Inl e, s2)
           | (Inr requestOptions, s2) \<Rightarrow> requestHandler endpoint requestOptions s2))"

definition createRequesterFn ::
  "('w, 'e) OptionsHandlerFn \<Rightarrow> ('w, 'e) RequestHandlerFn \<Rightarrow> ('w, 'e) ResourceOptions
     \<Rightarrow> (string \<times> ('w, 'e) verb_method) list" where
  "createRequesterFn optionsHandler requestHandler serviceOptions =
     foldl (\<lambda>requester m.
              obj_set requester m (requesterMethod optionsHandler requestHandler serviceOptions m))
       [] methods"

section \<open>Preset constructors\<close>

text \<open>
  A value of the resource mapping is a constructor (a class or an ordinary function,
  given by what \<open>new\<close> yields on an argument list), a function that is no constructor
  (an arrow function, a method, an async function), or anything that is no function.
  \<open>typeof v === 'function'\<close> holds for the first two. Evaluating
  \<open>class extends Constructor\<close> raises a \<open>TypeError\<close> when \<open>Constructor\<close> is no
  constructor.
\<close>

datatype js_error = TypeError

datatype 'i resource_value =
    Class "jsvalue list \<Rightarrow> 'i"
  | Function string
  | Value jsvalue

fun is_function :: "'i resource_value \<Rightarrow> bool" where
  "is_function (Class c) = True"
| "is_function (Function f) = True"
| "is_function (Value v) = False"

text \<open>
  \<open>{ ...presetConfig, ...config }\<close>, where \<open>config\<close> is \<open>undefined\<close> when the constructor
  is called without arguments.
\<close>

definition merge_config ::
  "(string \<times> jsvalue) list \<Rightarrow> jsvalue option \<Rightarrow> (string \<times> jsvalue) list" where
  "merge_config presetConfig config =
     spread (spread [] presetConfig) (case config of None \<Rightarrow> [] | Some c \<Rightarrow> own_entries c)"

fun createPresetConstructor ::
  "'i resource_value \<Rightarrow> (string \<times> jsvalue) list \<Rightarrow> js_error + 'i resource_value" where
  "createPresetConstructor (Class Constructor) presetConfig =
     Inr (Class (\<lambda>args. case args of
                    [] \<Rightarrow> Constructor [JObj (merge_config presetConfig None)]
                  | config # rest \<Rightarrow>
                      Constructor (JObj (merge_config presetConfig (Some config)) # rest)))"
| "createPresetConstructor v presetConfig = Inl TypeError"

text \<open>The \<open>forEach\<close> over \<open>Object.entries(resources)\<close>, with the result built so far.\<close>

fun presetEntries ::
  "(string \<times> 'i resource_value) list \<Rightarrow> (string \<times> jsvalue) list
     \<Rightarrow> (string \<times> 'i resource_value) list \<Rightarrow> js_error + (string \<times> 'i resource_value) list" where
  "presetEntries [] customConfig result = Inr result"
| "presetEntries ((key, Constructor) # entries) customConfig result =
     (if is_function Constructor
      then (case createPresetConstructor Constructor customConfig of
              Inl e \<Rightarrow> Inl e
            | Inr preset \<Rightarrow> presetEntries entries customConfig (obj_set result key preset))
      else presetEntries entries customConfig (obj_set result key Constructor))"

definition presetResourceArguments ::
  "(string \<times> 'i resource_value) list \<Rightarrow> (string \<times> jsvalue) list
     \<Rightarrow> js_error + (string \<times> 'i resource_value) list" where
  "presetResourceArguments resources customConfig = presetEntries resources customConfig []"

section \<open>Vocabulary of the properties\<close>

text \<open>
  The header object that the builder has assembled when it reaches the auth headers:
  the preconfigured entries, then \<open>sudo\<close>, then \<open>content-type\<close>.
\<close>

definition staticHeaders ::
  "('w, 'e) ResourceOptions \<Rightarrow> DefaultRequestOptions \<Rightarrow> 'w js_state \<Rightarrow> header_object" where
  "staticHeaders ro co s =
     (let h0 = deref s (ResourceOptions.headers ro);
          h1 = (case DefaultRequestOptions.sudo co of
                  None \<Rightarrow> h0
                | Some v \<Rightarrow> if truthy v then h0(''sudo'' \<mapsto> template_string v) else h0)
      in case DefaultRequestOptions.body co of
           Some (PlainObject b) \<Rightarrow> h1(''content-type'' \<mapsto> ''application/json'')
         | _ \<Rightarrow> h1)"

text \<open>The fields of the options that the builder resolves to, with headers at \<open>h\<close>.\<close>

definition builtOptions ::
  "('w, 'e) ResourceOptions \<Rightarrow> DefaultRequestOptions \<Rightarrow> addr \<Rightarrow> RequestOptions" where
  "builtOptions ro co h =
     \<lparr> RequestOptions.headers = Some h,
       RequestOptions.timeout = None,
       RequestOptions.method' =
         Some (case DefaultRequestOptions.method' co of None \<Rightarrow> ''GET'' | Some m \<Rightarrow> m),
       RequestOptions.searchParams =
         (if formatQuery (DefaultRequestOptions.searchParams co) \<noteq> []
          then Some (formatQuery (DefaultRequestOptions.searchParams co)) else None),
       RequestOptions.prefixUrl = Some (ResourceOptions.url ro),
       RequestOptions.body =
         (case DefaultRequestOptions.body co of
            None \<Rightarrow> None
          | Some (FormData f) \<Rightarrow> Some (BodyFormData f)
          | Some (PlainObject b) \<Rightarrow> Some (BodyString (JSON_stringify (decamelizeKeys (JObj b))))),
       RequestOptions.asStream =
         Some (case DefaultRequestOptions.asStream co of None \<Rightarrow> False | Some b \<Rightarrow> b),
       RequestOptions.signal = DefaultRequestOptions.signal co,
       RequestOptions.agent = ResourceOptions.agent ro \<rparr>"

text \<open>The scalars (leaf values) of a value.\<close>

fun scalars :: "jsvalue \<Rightarrow> jsvalue list" where
  "scalars (JArr xs) = concat (map scalars xs)"
| "scalars (JObj ps) = concat (map (\<lambda>(k, v). scalars v) ps)"
| "scalars v = [v]"

fun is_scalar :: "jsvalue \<Rightarrow> bool" where
  "is_scalar (JArr xs) = False"
| "is_scalar (JObj ps) = False"
| "is_scalar v = True"

definition upper_case :: "char \<Rightarrow> bool" where
  "upper_case c \<longleftrightarrow> c \<in> set ''ABCDEFGHIJKLMNOPQRSTUVWXYZ''"

text \<open>
  The query string in the words of the spec, to be compared with \<open>formatQuery\<close>. A leaf
  of a value is a scalar with the path that leads to it: the key of each mapping and a
  mark for each array on the way. A path is rendered with \<open>[key]\<close> for a key, the key in
  snake_case and URL-encoded, and \<open>[]\<close> for an array. A field \<open>k\<close> of the mapping gives
  one segment for each leaf of its value: the key \<open>k\<close> in snake_case and URL-encoded, the
  rendered path, \<open>=\<close>, the URL-encoded text of the scalar.
\<close>

datatype step = Field string | Element

fun leaves_at :: "jsvalue \<Rightarrow> (step list \<times> jsvalue) list" where
  "leaves_at (JArr xs) = concat (map (\<lambda>x. map (\<lambda>(p, v). (Element # p, v)) (leaves_at x)) xs)"
| "leaves_at (JObj ps) =
     concat (map (\<lambda>(k, x). map (\<lambda>(p, v). (Field k # p, v)) (leaves_at x)) ps)"
| "leaves_at v = [([], v)]"

fun render_steps :: "step list \<Rightarrow> string" where
  "render_steps [] = []"
| "render_steps (Field k # p) = ''['' @ percent_encode (decamelize k) @ '']'' @ render_steps p"
| "render_steps (Element # p) = ''[]'' @ render_steps p"

definition snake_case_segments :: "(string \<times> jsvalue) list \<Rightarrow> string list" where
  "snake_case_segments m =
     concat (map (\<lambda>(k, x).
               map (\<lambda>(p, v). percent_encode (decamelize k) @ render_steps p @ ''=''
                                 @ percent_encode (scalar_text v))
                 (leaves_at x)) m)"

text \<open>
  No two keys of one mapping, at any depth, decamelize to the same name.
\<close>

fun collision_free :: "jsvalue \<Rightarrow> bool" where
  "collision_free (JArr xs) = (\<forall>x \<in> set xs. collision_free x)"
| "collision_free (JObj ps) =
     (distinct (map (\<lambda>(k, v). decamelize k) ps) \<and> (\<forall>(k, v) \<in> set ps. collision_free v))"
| "collision_free v = True"

section \<open>The builder, step by step\<close>

lemma deref_fresh:
  "deref (s\<lparr>heap := heap s @ [obj]\<rparr>) (length (heap s)) = obj"
  by (simp add: deref_def)

lemma set_property_fresh:
  "set_property (length (heap s)) k v (s\<lparr>heap := heap s @ [obj]\<rparr>)
     = s\<lparr>heap := heap s @ [obj(k \<mapsto> v)]\<rparr>"
  by (simp add: set_property_def deref_def)

lemma set_property_fresh_world:
  "set_property (length (heap s)) k v (s\<lparr>heap := heap s @ [obj], world := w\<rparr>)
     = s\<lparr>heap := heap s @ [obj(k \<mapsto> v)], world := w\<rparr>"
  by (simp add: set_property_def deref_def)

lemma body_cases:
  obtains (absent) "DefaultRequestOptions.body co = None"
  | (form) f where "DefaultRequestOptions.body co = Some (FormData f)"
  | (plain) b where "DefaultRequestOptions.body co = Some (PlainObject b)"
proof (cases "DefaultRequestOptions.body co")
  case None
  then show ?thesis by (rule absent)
next
  case (Some x)
  then show ?thesis by (cases x) (auto intro: form plain)
qed

lemmas builder_unfold =
  defaultOptionsHandler_def spread_copy_def set_property_fresh set_property_fresh_world
  staticHeaders_def builtOptions_def Let_def

text \<open>
  Without auth headers the builder resolves; the state gains one object, the copy of
  the preconfigured headers with the entries of the call.
\<close>

lemma builder_no_auth:
  assumes "ResourceOptions.authHeaders ro = []"
  shows "defaultOptionsHandler ro co s =
           (Inr (builtOptions ro co (length (heap s))),
            s\<lparr>heap := heap s @ [staticHeaders ro co s]\<rparr>)"
  by (cases "DefaultRequestOptions.sudo co"; cases co rule: body_cases)
     (simp_all add: assms builder_unfold)

text \<open>With auth headers the first function alone decides between value and error.\<close>

lemma builder_resolved:
  assumes "ResourceOptions.authHeaders ro = (k, f) # rest" and "f (world s) = (Inr v, w)"
  shows "defaultOptionsHandler ro co s =
           (Inr (builtOptions ro co (length (heap s))),
            s\<lparr>heap := heap s @ [(staticHeaders ro co s)(k \<mapsto> v)], world := w\<rparr>)"
  by (cases "DefaultRequestOptions.sudo co"; cases co rule: body_cases)
     (simp_all add: assms builder_unfold)

lemma builder_rejected:
  assumes "ResourceOptions.authHeaders ro = (k, f) # rest" and "f (world s) = (Inl e, w)"
  shows "defaultOptionsHandler ro co s =
           (Inl e, s\<lparr>heap := heap s @ [staticHeaders ro co s], world := w\<rparr>)"
  by (cases "DefaultRequestOptions.sudo co"; cases co rule: body_cases)
     (simp_all add: assms builder_unfold)

section \<open>The \<open>sudo\<close> header\<close>

lemma static_sudo:
  assumes "DefaultRequestOptions.sudo co = Some v" and "truthy v"
  shows "staticHeaders ro co s ''sudo'' = Some (template_string v)"
  using assms by (cases co rule: body_cases) (simp_all add: staticHeaders_def)

text \<open>
  C5, as the code has it. The guard is \<open>if (sudo)\<close>: a \<open>sudo\<close> that is present and truthy
  (a non-empty string, a number other than 0) is written to the header \<open>sudo\<close> in its
  string form, and \<open>sudo = 42\<close> gives \<open>"42"\<close>. The entry is in the result headers when
  the builder resolves, that is when there is no auth header or the first auth-header
  function resolves, and when that auth header is not itself named \<open>sudo\<close>, since the
  auth header is assigned last.
\<close>

theorem sudo_header:
  assumes "DefaultRequestOptions.sudo co = Some v" and "truthy v"
    and "ResourceOptions.authHeaders ro = [] \<or>
         (\<exists>k f rest x w. ResourceOptions.authHeaders ro = (k, f) # rest \<and> k \<noteq> ''sudo''
            \<and> f (world s) = (Inr x, w))"
  shows "(\<exists>d s' h. defaultOptionsHandler ro co s = (Inr d, s')
            \<and> RequestOptions.headers d = Some h
            \<and> deref s' h ''sudo'' = Some (template_string v))
         \<and> template_string (SudoNumber 42) = ''42''"
proof
  from assms(3) show "\<exists>d s' h. defaultOptionsHandler ro co s = (Inr d, s')
           \<and> RequestOptions.headers d = Some h
           \<and> deref s' h ''sudo'' = Some (template_string v)"
  proof
    assume "ResourceOptions.authHeaders ro = []"
    then show ?thesis
      by (simp add: builder_no_auth builtOptions_def deref_fresh static_sudo [OF assms(1,2)])
  next
    assume "\<exists>k f rest x w. ResourceOptions.authHeaders ro = (k, f) # rest \<and> k \<noteq> ''sudo''
            \<and> f (world s) = (Inr x, w)"
    then obtain k f rest x w where a: "ResourceOptions.authHeaders ro = (k, f) # rest"
      and k: "k \<noteq> ''sudo''" and f: "f (world s) = (Inr x, w)" by blast
    have "deref (s\<lparr>heap := heap s @ [(staticHeaders ro co s)(k \<mapsto> x)], world := w\<rparr>)
            (length (heap s)) ''sudo'' = Some (template_string v)"
      using k by (simp add: deref_def static_sudo [OF assms(1,2)])
    then show ?thesis
      by (simp add: builder_resolved [OF a f] builtOptions_def)
  qed
  show "template_string (SudoNumber 42) = ''42''"
    by code_simp
qed

text \<open>
  At \<open>sudo = 42\<close> with one auth header \<open>Authorization\<close> that resolves, the result
  headers hold \<open>sudo: "42"\<close>.
\<close>

theorem sudo_header_witness:
  "DefaultRequestOptions.sudo (no_options\<lparr>sudo := Some (SudoNumber 42)\<rparr>) = Some (SudoNumber 42)
   \<and> truthy (SudoNumber 42)
   \<and> (\<exists>d s' h. defaultOptionsHandler
        \<lparr> ResourceOptions.headers = 0,
          authHeaders = [(''Authorization'', \<lambda>w::unit. (Inr ''token'' :: string + string, w))],
          url = ''https://x'', rateLimits = None, rateLimitDuration = None,
          ResourceOptions.agent = None \<rparr>
        (no_options\<lparr>sudo := Some (SudoNumber 42)\<rparr>)
        \<lparr> heap = [Map.empty], world = () \<rparr> = (Inr d, s')
           \<and> RequestOptions.headers d = Some h
           \<and> deref s' h ''sudo'' = Some ''42'')"
  using sudo_header [of "no_options\<lparr>sudo := Some (SudoNumber 42)\<rparr>" "SudoNumber 42"
        "\<lparr> ResourceOptions.headers = 0,
          authHeaders = [(''Authorization'', \<lambda>w::unit. (Inr ''token'' :: string + string, w))],
          url = ''https://x'', rateLimits = None, rateLimitDuration = None,
          ResourceOptions.agent = None \<rparr>" "\<lparr> heap = [Map.empty], world = () \<rparr>"]
  by auto

text \<open>
  The claim as stated fails twice. With \<open>sudo = 0\<close>, present and a number, the result
  headers (the object at address 1) hold no \<open>sudo\<close>. With \<open>sudo = 42\<close> and a first auth
  header named \<open>sudo\<close> that resolves to \<open>"root"\<close>, the result holds \<open>sudo: "root"\<close>.
\<close>

theorem sudo_header_counterexample:
  "map_sum id RequestOptions.headers
     (fst (defaultOptionsHandler
        \<lparr> ResourceOptions.headers = 0,
          authHeaders = ([] :: (string \<times> (unit \<Rightarrow> (string + string) \<times> unit)) list),
          url = ''https://x'', rateLimits = None, rateLimitDuration = None,
          ResourceOptions.agent = None \<rparr>
        (no_options\<lparr>sudo := Some (SudoNumber 0)\<rparr>)
        \<lparr> heap = [Map.empty], world = () \<rparr>)) = Inr (Some 1)
   \<and> deref (snd (defaultOptionsHandler
        \<lparr> ResourceOptions.headers = 0,
          authHeaders = ([] :: (string \<times> (unit \<Rightarrow> (string + string) \<times> unit)) list),
          url = ''https://x'', rateLimits = None, rateLimitDuration = None,
          ResourceOptions.agent = None \<rparr>
        (no_options\<lparr>sudo := Some (SudoNumber 0)\<rparr>)
        \<lparr> heap = [Map.empty], world = () \<rparr>)) 1 ''sudo'' = None
   \<and> map_sum id RequestOptions.headers
     (fst (defaultOptionsHandler
        \<lparr> ResourceOptions.headers = 0,
          authHeaders = [(''sudo'', \<lambda>w::unit. (Inr ''root'' :: string + string, w))],
          url = ''https://x'', rateLimits = None, rateLimitDuration = None,
          ResourceOptions.agent = None \<rparr>
        (no_options\<lparr>sudo := Some (SudoNumber 42)\<rparr>)
        \<lparr> heap = [Map.empty], world = () \<rparr>)) = Inr (Some 1)
   \<and> deref (snd (defaultOptionsHandler
        \<lparr> ResourceOptions.headers = 0,
          authHeaders = [(''sudo'', \<lambda>w::unit. (Inr ''root'' :: string + string, w))],
          url = ''https://x'', rateLimits = None, rateLimitDuration = None,
          ResourceOptions.agent = None \<rparr>
        (no_options\<lparr>sudo := Some (SudoNumber 42)\<rparr>)
        \<lparr> heap = [Map.empty], world = () \<rparr>)) 1 ''sudo'' = Some ''root''"
  by (simp add: builder_no_auth builder_resolved [where rest = "[]"] builtOptions_def
      staticHeaders_def no_options_def deref_def)

section \<open>The auth header\<close>

lemma auth_cases:
  obtains (none) "ResourceOptions.authHeaders ro = []"
  | (resolved) k f rest v w where "ResourceOptions.authHeaders ro = (k, f) # rest" "f (world s) = (Inr v, w)"
  | (rejected) k f rest e w where "ResourceOptions.authHeaders ro = (k, f) # rest" "f (world s) = (Inl e, w)"
proof (cases "ResourceOptions.authHeaders ro")
  case Nil
  then show ?thesis by (rule none)
next
  case (Cons kf rest)
  obtain k f where kf: "kf = (k, f)" by (cases kf)
  obtain r w where fw: "f (world s) = (r, w)" by (cases "f (world s)")
  show ?thesis
  proof (cases r)
    case (Inl e)
    with Cons kf fw show ?thesis by (auto intro: rejected)
  next
    case (Inr v)
    with Cons kf fw show ?thesis by (auto intro: resolved)
  qed
qed

text \<open>
  C1. When \<open>authHeaders\<close> is non-empty, with first entry \<open>(k, f)\<close> in iteration order:
  the world after the call is the world after one run of \<open>f\<close>, so \<open>f\<close> is the one
  injected function that ran; the call is the same call as with \<open>authHeaders\<close> cut down
  to that first entry, so no other entry is invoked or set; and when \<open>f\<close> resolves to
  \<open>v\<close>, the result headers are the headers of the same call without auth headers, with
  \<open>k\<close> set to \<open>v\<close> and nothing else changed.
\<close>

theorem first_auth_header_only:
  assumes "ResourceOptions.authHeaders ro = (k, f) # rest"
  shows "world (snd (defaultOptionsHandler ro co s)) = snd (f (world s))
     \<and> defaultOptionsHandler ro co s = defaultOptionsHandler (ro\<lparr>authHeaders := [(k, f)]\<rparr>) co s
     \<and> (\<forall>v w. f (world s) = (Inr v, w) \<longrightarrow>
           (\<exists>d s' h. defaultOptionsHandler ro co s = (Inr d, s')
              \<and> RequestOptions.headers d = Some h
              \<and> deref s' h =
                  (deref (snd (defaultOptionsHandler (ro\<lparr>authHeaders := []\<rparr>) co s)) h)(k \<mapsto> v)))"
proof -
  have static: "staticHeaders (ro\<lparr>authHeaders := x\<rparr>) co s = staticHeaders ro co s" for x
    by (simp add: staticHeaders_def)
  have built: "builtOptions (ro\<lparr>authHeaders := x\<rparr>) co h = builtOptions ro co h" for x h
    by (simp add: builtOptions_def)
  obtain r w where fw: "f (world s) = (r, w)" by (cases "f (world s)")
  show ?thesis
  proof (cases r)
    case (Inl e)
    have 1: "defaultOptionsHandler ro co s
             = (Inl e, s\<lparr>heap := heap s @ [staticHeaders ro co s], world := w\<rparr>)"
      using assms fw Inl by (simp add: builder_rejected)
    have 2: "defaultOptionsHandler (ro\<lparr>authHeaders := [(k, f)]\<rparr>) co s
             = (Inl e, s\<lparr>heap := heap s @ [staticHeaders ro co s], world := w\<rparr>)"
      using fw Inl by (simp add: builder_rejected [where k = k and f = f and rest = "[]"] static)
    show ?thesis using fw Inl by (simp add: 1 2)
  next
    case (Inr v)
    have 1: "defaultOptionsHandler ro co s
             = (Inr (builtOptions ro co (length (heap s))),
                s\<lparr>heap := heap s @ [(staticHeaders ro co s)(k \<mapsto> v)], world := w\<rparr>)"
      using assms fw Inr by (simp add: builder_resolved)
    have 2: "defaultOptionsHandler (ro\<lparr>authHeaders := [(k, f)]\<rparr>) co s
             = (Inr (builtOptions ro co (length (heap s))),
                s\<lparr>heap := heap s @ [(staticHeaders ro co s)(k \<mapsto> v)], world := w\<rparr>)"
      using fw Inr by (simp add: builder_resolved [where k = k and f = f and rest = "[]"] static built)
    have 3: "defaultOptionsHandler (ro\<lparr>authHeaders := []\<rparr>) co s
             = (Inr (builtOptions ro co (length (heap s))),
                s\<lparr>heap := heap s @ [staticHeaders ro co s]\<rparr>)"
      by (simp add: builder_no_auth static built)
    show ?thesis using fw Inr by (simp add: 1 2 3 builtOptions_def deref_def)
  qed
qed

text \<open>
  With \<open>authHeaders = {Authorization: fn1, "X-Other": fn2}\<close> and a world that logs the
  calls: the log holds \<open>fn1\<close> alone, \<open>Authorization\<close> is set and \<open>X-Other\<close> is not.
\<close>

theorem first_auth_header_only_witness:
  "world (snd (defaultOptionsHandler
        \<lparr> ResourceOptions.headers = 0,
          authHeaders = [(''Authorization'', \<lambda>w. (Inr ''token'' :: string + string, w @ [''fn1''])),
                         (''X-Other'', \<lambda>w. (Inr ''other'', w @ [''fn2'']))],
          url = ''https://x'', rateLimits = None, rateLimitDuration = None,
          ResourceOptions.agent = None \<rparr>
        no_options \<lparr> heap = [Map.empty], world = [] \<rparr>)) = [''fn1'']
   \<and> (\<exists>d s' h. defaultOptionsHandler
        \<lparr> ResourceOptions.headers = 0,
          authHeaders = [(''Authorization'', \<lambda>w. (Inr ''token'' :: string + string, w @ [''fn1''])),
                         (''X-Other'', \<lambda>w. (Inr ''other'', w @ [''fn2'']))],
          url = ''https://x'', rateLimits = None, rateLimitDuration = None,
          ResourceOptions.agent = None \<rparr>
        no_options \<lparr> heap = [Map.empty], world = [] \<rparr> = (Inr d, s')
      \<and> RequestOptions.headers d = Some h
      \<and> deref s' h ''Authorization'' = Some ''token''
      \<and> deref s' h ''X-Other'' = None)"
proof -
  let ?f = "\<lambda>w. (Inr ''token'' :: string + string, w @ [''fn1''])"
  let ?rest = "[(''X-Other'', \<lambda>w. (Inr ''other'' :: string + string, w @ [''fn2'']))]"
  let ?ro = "\<lparr> ResourceOptions.headers = 0,
          authHeaders = (''Authorization'', ?f) # ?rest,
          url = ''https://x'', rateLimits = None, rateLimitDuration = None,
          ResourceOptions.agent = None \<rparr>"
  let ?s = "\<lparr> heap = [Map.empty], world = [] :: string list \<rparr>"
  have a: "ResourceOptions.authHeaders ?ro = (''Authorization'', ?f) # ?rest"
    by simp
  note t = first_auth_header_only [OF a, of no_options ?s]
  have w: "world (snd (defaultOptionsHandler ?ro no_options ?s)) = [''fn1'']"
    using t [THEN conjunct1] by simp
  obtain d s' h where r: "defaultOptionsHandler ?ro no_options ?s = (Inr d, s')"
    "RequestOptions.headers d = Some h"
    "deref s' h = (deref (snd (defaultOptionsHandler (?ro\<lparr>authHeaders := []\<rparr>) no_options ?s)) h)
                    (''Authorization'' \<mapsto> ''token'')"
    using t [THEN conjunct2, THEN conjunct2] by auto
  have base: "deref (snd (defaultOptionsHandler (?ro\<lparr>authHeaders := []\<rparr>) no_options ?s)) h ''X-Other''
              = None"
    by (simp add: builder_no_auth staticHeaders_def no_options_def deref_def nth_Cons')
  from r(3) base have "deref s' h ''Authorization'' = Some ''token'' \<and> deref s' h ''X-Other'' = None"
    by simp
  with w r(1,2) show ?thesis by blast
qed

section \<open>The body\<close>

lemma static_content_type:
  "staticHeaders ro co s ''content-type'' =
     (case DefaultRequestOptions.body co of
        Some (PlainObject b) \<Rightarrow> Some ''application/json''
      | _ \<Rightarrow> deref s (ResourceOptions.headers ro) ''content-type'')"
  by (cases "DefaultRequestOptions.sudo co"; cases co rule: body_cases)
     (simp_all add: staticHeaders_def Let_def)

lemma built_body:
  "RequestOptions.body (builtOptions ro co h) =
     (case DefaultRequestOptions.body co of
        None \<Rightarrow> None
      | Some (FormData f) \<Rightarrow> Some (BodyFormData f)
      | Some (PlainObject b) \<Rightarrow> Some (BodyString (JSON_stringify (decamelizeKeys (JObj b)))))"
  by (simp add: builtOptions_def)

text \<open>
  C2, as the code has it. When the builder resolves (no auth header, or a first
  auth-header function that resolves) and the first auth header is not itself named
  \<open>content-type\<close>: a multipart form is passed on as the same reference and the
  \<open>content-type\<close> of the result is what the preconfigured headers held, none if they
  held none; a plain object becomes the JSON text of its key-decamelized form and the
  result headers hold \<open>content-type: application/json\<close>. The body \<open>{userName: "x"}\<close>
  gives \<open>{"user_name":"x"}\<close>.
\<close>

theorem body_encoding:
  assumes "ResourceOptions.authHeaders ro = [] \<or>
         (\<exists>k f rest x w. ResourceOptions.authHeaders ro = (k, f) # rest \<and> k \<noteq> ''content-type''
            \<and> f (world s) = (Inr x, w))"
  shows "(\<exists>d s' h. defaultOptionsHandler ro co s = (Inr d, s')
            \<and> RequestOptions.headers d = Some h
            \<and> (\<forall>f. DefaultRequestOptions.body co = Some (FormData f) \<longrightarrow>
                   RequestOptions.body d = Some (BodyFormData f)
                 \<and> deref s' h ''content-type''
                     = deref s (ResourceOptions.headers ro) ''content-type'')
            \<and> (\<forall>b. DefaultRequestOptions.body co = Some (PlainObject b) \<longrightarrow>
                   RequestOptions.body d
                     = Some (BodyString (JSON_stringify (decamelizeKeys (JObj b))))
                 \<and> deref s' h ''content-type'' = Some ''application/json''))
         \<and> JSON_stringify (decamelizeKeys (JObj [(''userName'', JStr ''x'')]))
             = [CHR ''{'', CHR 0x22] @ ''user_name'' @ [CHR 0x22, CHR '':'', CHR 0x22] @ ''x''
               @ [CHR 0x22, CHR ''}'']"
proof
  from assms show "\<exists>d s' h. defaultOptionsHandler ro co s = (Inr d, s')
            \<and> RequestOptions.headers d = Some h
            \<and> (\<forall>f. DefaultRequestOptions.body co = Some (FormData f) \<longrightarrow>
                   RequestOptions.body d = Some (BodyFormData f)
                 \<and> deref s' h ''content-type''
                     = deref s (ResourceOptions.headers ro) ''content-type'')
            \<and> (\<forall>b. DefaultRequestOptions.body co = Some (PlainObject b) \<longrightarrow>
                   RequestOptions.body d
                     = Some (BodyString (JSON_stringify (decamelizeKeys (JObj b))))
                 \<and> deref s' h ''content-type'' = Some ''application/json'')"
  proof
    assume a: "ResourceOptions.authHeaders ro = []"
    have h: "RequestOptions.headers (builtOptions ro co (length (heap s))) = Some (length (heap s))"
      by (simp add: builtOptions_def)
    show ?thesis
      unfolding builder_no_auth [OF a]
      by (intro exI conjI allI impI, rule refl, rule h)
         (simp_all add: built_body deref_fresh static_content_type)
  next
    assume "\<exists>k f rest x w. ResourceOptions.authHeaders ro = (k, f) # rest \<and> k \<noteq> ''content-type''
            \<and> f (world s) = (Inr x, w)"
    then obtain k f rest x w where a: "ResourceOptions.authHeaders ro = (k, f) # rest"
      and k: "k \<noteq> ''content-type''" and f: "f (world s) = (Inr x, w)" by blast
    have h: "RequestOptions.headers (builtOptions ro co (length (heap s))) = Some (length (heap s))"
      by (simp add: builtOptions_def)
    have d: "deref (s\<lparr>heap := heap s @ [(staticHeaders ro co s)(k \<mapsto> x)], world := w\<rparr>)
               (length (heap s)) ''content-type'' = staticHeaders ro co s ''content-type''"
      using k by (simp add: deref_def)
    show ?thesis
      unfolding builder_resolved [OF a f]
      by (intro exI conjI allI impI, rule refl, rule h)
         (simp_all add: built_body d static_content_type)
  qed
  show "JSON_stringify (decamelizeKeys (JObj [(''userName'', JStr ''x'')]))
             = [CHR ''{'', CHR 0x22] @ ''user_name'' @ [CHR 0x22, CHR '':'', CHR 0x22] @ ''x''
               @ [CHR 0x22, CHR ''}'']"
    by code_simp
qed

text \<open>
  The claim as stated fails where the first auth header is named \<open>content-type\<close>: it is
  assigned after the body, so with a plain-object body and that header resolving to
  \<open>text/plain\<close> the result headers (the object at address 1) hold \<open>text/plain\<close>.
\<close>

theorem body_encoding_counterexample:
  "map_sum id RequestOptions.headers
     (fst (defaultOptionsHandler
        \<lparr> ResourceOptions.headers = 0,
          authHeaders = [(''content-type'', \<lambda>w::unit. (Inr ''text/plain'' :: string + string, w))],
          url = ''https://x'', rateLimits = None, rateLimitDuration = None,
          ResourceOptions.agent = None \<rparr>
        (no_options\<lparr>DefaultRequestOptions.body := Some (PlainObject [(''userName'', JStr ''x'')])\<rparr>)
        \<lparr> heap = [Map.empty], world = () \<rparr>)) = Inr (Some 1)
   \<and> deref (snd (defaultOptionsHandler
        \<lparr> ResourceOptions.headers = 0,
          authHeaders = [(''content-type'', \<lambda>w::unit. (Inr ''text/plain'' :: string + string, w))],
          url = ''https://x'', rateLimits = None, rateLimitDuration = None,
          ResourceOptions.agent = None \<rparr>
        (no_options\<lparr>DefaultRequestOptions.body := Some (PlainObject [(''userName'', JStr ''x'')])\<rparr>)
        \<lparr> heap = [Map.empty], world = () \<rparr>)) 1 ''content-type'' = Some ''text/plain''"
  by (simp add: builder_resolved [where rest = "[]"] builtOptions_def
      staticHeaders_def no_options_def deref_def)

text \<open>
  A plain object and a form, each with an auth header \<open>Authorization\<close> that resolves.
\<close>

theorem body_encoding_witness:
  "(\<exists>d s' h. defaultOptionsHandler
        \<lparr> ResourceOptions.headers = 0,
          authHeaders = [(''Authorization'', \<lambda>w::unit. (Inr ''token'' :: string + string, w))],
          url = ''https://x'', rateLimits = None, rateLimitDuration = None,
          ResourceOptions.agent = None \<rparr>
        (no_options\<lparr>DefaultRequestOptions.body := Some (PlainObject [(''userName'', JStr ''x'')])\<rparr>)
        \<lparr> heap = [Map.empty], world = () \<rparr> = (Inr d, s')
      \<and> RequestOptions.headers d = Some h
      \<and> RequestOptions.body d
           = Some (BodyString ([CHR ''{'', CHR 0x22] @ ''user_name'' @ [CHR 0x22, CHR '':'', CHR 0x22]
                               @ ''x'' @ [CHR 0x22, CHR ''}'']))
      \<and> deref s' h ''content-type'' = Some ''application/json'')
   \<and> (\<exists>d s' h. defaultOptionsHandler
        \<lparr> ResourceOptions.headers = 0,
          authHeaders = [(''Authorization'', \<lambda>w::unit. (Inr ''token'' :: string + string, w))],
          url = ''https://x'', rateLimits = None, rateLimitDuration = None,
          ResourceOptions.agent = None \<rparr>
        (no_options\<lparr>DefaultRequestOptions.body := Some (FormData 7)\<rparr>)
        \<lparr> heap = [Map.empty], world = () \<rparr> = (Inr d, s')
      \<and> RequestOptions.headers d = Some h
      \<and> RequestOptions.body d = Some (BodyFormData 7)
      \<and> deref s' h ''content-type'' = None)"
proof -
  let ?ro = "\<lparr> ResourceOptions.headers = 0,
          authHeaders = [(''Authorization'', \<lambda>w::unit. (Inr ''token'' :: string + string, w))],
          url = ''https://x'', rateLimits = None, rateLimitDuration = None,
          ResourceOptions.agent = None \<rparr>"
  let ?s = "\<lparr> heap = [Map.empty], world = () \<rparr>"
  have a: "ResourceOptions.authHeaders ?ro = [] \<or>
         (\<exists>k f rest x w. ResourceOptions.authHeaders ?ro = (k, f) # rest \<and> k \<noteq> ''content-type''
            \<and> f (world ?s) = (Inr x, w))"
    by simp
  let ?plain = "no_options\<lparr>DefaultRequestOptions.body :=
                   Some (PlainObject [(''userName'', JStr ''x'')])\<rparr>"
  let ?form = "no_options\<lparr>DefaultRequestOptions.body := Some (FormData 7)\<rparr>"
  note p = body_encoding [OF a, of ?plain]
  note f = body_encoding [OF a, of ?form]
  obtain d s' h where 1: "defaultOptionsHandler ?ro ?plain ?s = (Inr d, s')"
    "RequestOptions.headers d = Some h"
    "RequestOptions.body d
       = Some (BodyString (JSON_stringify (decamelizeKeys (JObj [(''userName'', JStr ''x'')]))))"
    "deref s' h ''content-type'' = Some ''application/json''"
    using p [THEN conjunct1] by auto
  obtain d2 s2 h2 where 2: "defaultOptionsHandler ?ro ?form ?s = (Inr d2, s2)"
    "RequestOptions.headers d2 = Some h2"
    "RequestOptions.body d2 = Some (BodyFormData 7)"
    "deref s2 h2 ''content-type'' = deref ?s 0 ''content-type''"
    using f [THEN conjunct1] by auto
  have 3: "deref ?s 0 ''content-type'' = None"
    by (simp add: deref_def)
  from 1 p [THEN conjunct2] 2 3 show ?thesis
    by (intro conjI exI [of _ d] exI [of _ s'] exI [of _ h] exI [of _ d2] exI [of _ s2]
        exI [of _ h2]) simp_all
qed

section \<open>The builder leaves its input alone\<close>

lemma builder_heap:
  "\<exists>obj. heap (snd (defaultOptionsHandler ro co s)) = heap s @ [obj]"
  by (rule auth_cases [where ro = ro and s = s])
     (simp_all add: builder_no_auth builder_resolved builder_rejected)

lemma builder_copy:
  "deref (snd (defaultOptionsHandler ro co s)) (length (heap s))
     = (case ResourceOptions.authHeaders ro of
          [] \<Rightarrow> staticHeaders ro co s
        | (k, f) # rest \<Rightarrow>
            (case fst (f (world s)) of
               Inl e \<Rightarrow> staticHeaders ro co s
             | Inr v \<Rightarrow> (staticHeaders ro co s)(k \<mapsto> v)))"
  by (rule auth_cases [where ro = ro and s = s])
     (simp_all add: builder_no_auth builder_resolved builder_rejected deref_def)

lemma static_other:
  assumes "key \<noteq> ''sudo''" and "key \<noteq> ''content-type''"
  shows "staticHeaders ro co s key = deref s (ResourceOptions.headers ro) key"
  using assms
  by (cases "DefaultRequestOptions.sudo co"; cases co rule: body_cases)
     (simp_all add: staticHeaders_def Let_def)

lemma static_plain:
  assumes "DefaultRequestOptions.sudo co = None" and "DefaultRequestOptions.body co = None"
  shows "staticHeaders ro co s = deref s (ResourceOptions.headers ro)"
  using assms by (simp add: staticHeaders_def)

text \<open>
  C6, as the code has it. Every object that existed before the call is unchanged after
  it, the preconfigured headers of \<open>resourceOptions\<close> among them. The call allocates one
  object, at a fresh address, and that object is the copy: it holds the preconfigured
  entries, then \<open>sudo\<close>, then \<open>content-type\<close>, then the auth header, so every entry
  under another name is the preconfigured one, and without \<open>sudo\<close>, body and auth header
  the copy equals the preconfigured headers. When there is no auth header or the first
  auth-header function resolves, the result is a populated \<open>RequestOptions\<close> whose
  headers are that copy (with method and asStream at their defaults when absent,
  prefixUrl, signal, agent); when that function is rejected, the result is its error. In
  both cases the input is untouched.
\<close>

theorem builder_frame:
  "take (length (heap s)) (heap (snd (defaultOptionsHandler ro co s))) = heap s
   \<and> (ResourceOptions.headers ro < length (heap s) \<longrightarrow>
        deref (snd (defaultOptionsHandler ro co s)) (ResourceOptions.headers ro)
          = deref s (ResourceOptions.headers ro))
   \<and> length (heap (snd (defaultOptionsHandler ro co s))) = Suc (length (heap s))
   \<and> deref (snd (defaultOptionsHandler ro co s)) (length (heap s))
       = (case ResourceOptions.authHeaders ro of
            [] \<Rightarrow> staticHeaders ro co s
          | (k, f) # rest \<Rightarrow>
              (case fst (f (world s)) of
                 Inl e \<Rightarrow> staticHeaders ro co s
               | Inr v \<Rightarrow> (staticHeaders ro co s)(k \<mapsto> v)))
   \<and> (\<forall>key. key \<noteq> ''sudo'' \<and> key \<noteq> ''content-type''
          \<and> (\<forall>k f rest. ResourceOptions.authHeaders ro = (k, f) # rest \<longrightarrow> key \<noteq> k) \<longrightarrow>
        deref (snd (defaultOptionsHandler ro co s)) (length (heap s)) key
          = deref s (ResourceOptions.headers ro) key)
   \<and> (DefaultRequestOptions.sudo co = None \<and> DefaultRequestOptions.body co = None
        \<and> ResourceOptions.authHeaders ro = [] \<longrightarrow>
        deref (snd (defaultOptionsHandler ro co s)) (length (heap s))
          = deref s (ResourceOptions.headers ro))
   \<and> (ResourceOptions.authHeaders ro = [] \<or>
        (\<exists>k f rest v w. ResourceOptions.authHeaders ro = (k, f) # rest
           \<and> f (world s) = (Inr v, w)) \<longrightarrow>
        (\<exists>d. fst (defaultOptionsHandler ro co s) = Inr d
           \<and> RequestOptions.headers d = Some (length (heap s))
           \<and> RequestOptions.method' d
               = Some (case DefaultRequestOptions.method' co of None \<Rightarrow> ''GET'' | Some m \<Rightarrow> m)
           \<and> RequestOptions.asStream d
               = Some (case DefaultRequestOptions.asStream co of None \<Rightarrow> False | Some b \<Rightarrow> b)
           \<and> RequestOptions.prefixUrl d = Some (ResourceOptions.url ro)
           \<and> RequestOptions.signal d = DefaultRequestOptions.signal co
           \<and> RequestOptions.agent d = ResourceOptions.agent ro))
   \<and> (\<forall>k f rest e w. ResourceOptions.authHeaders ro = (k, f) # rest
           \<and> f (world s) = (Inl e, w) \<longrightarrow>
        fst (defaultOptionsHandler ro co s) = Inl e)"
proof (intro conjI)
  obtain obj where h: "heap (snd (defaultOptionsHandler ro co s)) = heap s @ [obj]"
    using builder_heap by blast
  show "take (length (heap s)) (heap (snd (defaultOptionsHandler ro co s))) = heap s"
    by (simp add: h)
  show "ResourceOptions.headers ro < length (heap s) \<longrightarrow>
        deref (snd (defaultOptionsHandler ro co s)) (ResourceOptions.headers ro)
          = deref s (ResourceOptions.headers ro)"
    by (simp add: deref_def h nth_append)
  show "length (heap (snd (defaultOptionsHandler ro co s))) = Suc (length (heap s))"
    by (simp add: h)
  show "deref (snd (defaultOptionsHandler ro co s)) (length (heap s))
       = (case ResourceOptions.authHeaders ro of
            [] \<Rightarrow> staticHeaders ro co s
          | (k, f) # rest \<Rightarrow>
              (case fst (f (world s)) of
                 Inl e \<Rightarrow> staticHeaders ro co s
               | Inr v \<Rightarrow> (staticHeaders ro co s)(k \<mapsto> v)))"
    by (rule builder_copy)
  show "\<forall>key. key \<noteq> ''sudo'' \<and> key \<noteq> ''content-type''
          \<and> (\<forall>k f rest. ResourceOptions.authHeaders ro = (k, f) # rest \<longrightarrow> key \<noteq> k) \<longrightarrow>
        deref (snd (defaultOptionsHandler ro co s)) (length (heap s)) key
          = deref s (ResourceOptions.headers ro) key"
    unfolding builder_copy
    by (auto simp add: static_other split: list.split sum.split)
  show "DefaultRequestOptions.sudo co = None \<and> DefaultRequestOptions.body co = None
        \<and> ResourceOptions.authHeaders ro = [] \<longrightarrow>
        deref (snd (defaultOptionsHandler ro co s)) (length (heap s))
          = deref s (ResourceOptions.headers ro)"
    unfolding builder_copy by (simp add: static_plain)
  show "ResourceOptions.authHeaders ro = [] \<or>
        (\<exists>k f rest v w. ResourceOptions.authHeaders ro = (k, f) # rest
           \<and> f (world s) = (Inr v, w)) \<longrightarrow>
        (\<exists>d. fst (defaultOptionsHandler ro co s) = Inr d
           \<and> RequestOptions.headers d = Some (length (heap s))
           \<and> RequestOptions.method' d
               = Some (case DefaultRequestOptions.method' co of None \<Rightarrow> ''GET'' | Some m \<Rightarrow> m)
           \<and> RequestOptions.asStream d
               = Some (case DefaultRequestOptions.asStream co of None \<Rightarrow> False | Some b \<Rightarrow> b)
           \<and> RequestOptions.prefixUrl d = Some (ResourceOptions.url ro)
           \<and> RequestOptions.signal d = DefaultRequestOptions.signal co
           \<and> RequestOptions.agent d = ResourceOptions.agent ro)"
  proof
    assume "ResourceOptions.authHeaders ro = [] \<or>
        (\<exists>k f rest v w. ResourceOptions.authHeaders ro = (k, f) # rest
           \<and> f (world s) = (Inr v, w))"
    then have "fst (defaultOptionsHandler ro co s) = Inr (builtOptions ro co (length (heap s)))"
      by (auto simp add: builder_no_auth builder_resolved)
    then show "\<exists>d. fst (defaultOptionsHandler ro co s) = Inr d
           \<and> RequestOptions.headers d = Some (length (heap s))
           \<and> RequestOptions.method' d
               = Some (case DefaultRequestOptions.method' co of None \<Rightarrow> ''GET'' | Some m \<Rightarrow> m)
           \<and> RequestOptions.asStream d
               = Some (case DefaultRequestOptions.asStream co of None \<Rightarrow> False | Some b \<Rightarrow> b)
           \<and> RequestOptions.prefixUrl d = Some (ResourceOptions.url ro)
           \<and> RequestOptions.signal d = DefaultRequestOptions.signal co
           \<and> RequestOptions.agent d = ResourceOptions.agent ro"
      by (simp add: builtOptions_def)
  qed
  show "\<forall>k f rest e w. ResourceOptions.authHeaders ro = (k, f) # rest
           \<and> f (world s) = (Inl e, w) \<longrightarrow>
        fst (defaultOptionsHandler ro co s) = Inl e"
    by (auto simp add: builder_rejected)
qed

text \<open>
  The claim as stated fails where the first auth-header function is rejected: the builder
  returns no \<open>RequestOptions\<close>, the outcome is the error.
\<close>

theorem builder_frame_counterexample:
  "fst (defaultOptionsHandler
        \<lparr> ResourceOptions.headers = 0,
          authHeaders = [(''Authorization'', \<lambda>w::unit. (Inl ''denied'' :: string + string, w))],
          url = ''https://x'', rateLimits = None, rateLimitDuration = None,
          ResourceOptions.agent = None \<rparr>
        no_options
        \<lparr> heap = [Map.empty], world = () \<rparr>) = Inl ''denied''"
  by (simp add: builder_rejected [where rest = "[]"])

text \<open>
  Preconfigured headers \<open>{a: "1"}\<close> at address 0, \<open>sudo = 42\<close> and an auth header that
  resolves: after the call the object at address 0 is still \<open>{a: "1"}\<close>, and the result
  headers, the object at address 1, are \<open>{a: "1", sudo: "42", Authorization: "token"}\<close>.
  Without options and auth headers the object at address 1 is \<open>{a: "1"}\<close>. With a
  rejected auth-header function the outcome is its error.
\<close>

theorem builder_frame_witness:
  "deref (snd (defaultOptionsHandler
        \<lparr> ResourceOptions.headers = 0,
          authHeaders = [(''Authorization'', \<lambda>w::unit. (Inr ''token'' :: string + string, w))],
          url = ''https://x'', rateLimits = None, rateLimitDuration = None,
          ResourceOptions.agent = None \<rparr>
        (no_options\<lparr>sudo := Some (SudoNumber 42)\<rparr>)
        \<lparr> heap = [[''a'' \<mapsto> ''1'']], world = () \<rparr>)) 0 = [''a'' \<mapsto> ''1'']
   \<and> deref (snd (defaultOptionsHandler
        \<lparr> ResourceOptions.headers = 0,
          authHeaders = [(''Authorization'', \<lambda>w::unit. (Inr ''token'' :: string + string, w))],
          url = ''https://x'', rateLimits = None, rateLimitDuration = None,
          ResourceOptions.agent = None \<rparr>
        (no_options\<lparr>sudo := Some (SudoNumber 42)\<rparr>)
        \<lparr> heap = [[''a'' \<mapsto> ''1'']], world = () \<rparr>)) 1
       = [''a'' \<mapsto> ''1'', ''sudo'' \<mapsto> ''42'', ''Authorization'' \<mapsto> ''token'']
   \<and> (\<exists>d. fst (defaultOptionsHandler
        \<lparr> ResourceOptions.headers = 0,
          authHeaders = [(''Authorization'', \<lambda>w::unit. (Inr ''token'' :: string + string, w))],
          url = ''https://x'', rateLimits = None, rateLimitDuration = None,
          ResourceOptions.agent = None \<rparr>
        (no_options\<lparr>sudo := Some (SudoNumber 42)\<rparr>)
        \<lparr> heap = [[''a'' \<mapsto> ''1'']], world = () \<rparr>) = Inr d
      \<and> RequestOptions.headers d = Some 1
      \<and> RequestOptions.method' d = Some ''GET''
      \<and> RequestOptions.prefixUrl d = Some ''https://x'')
   \<and> deref (snd (defaultOptionsHandler
        \<lparr> ResourceOptions.headers = 0,
          authHeaders = [(''Authorization'', \<lambda>w::unit. (Inr ''token'' :: string + string, w))],
          url = ''https://x'', rateLimits = None, rateLimitDuration = None,
          ResourceOptions.agent = None \<rparr>
        (no_options\<lparr>sudo := Some (SudoNumber 42)\<rparr>)
        \<lparr> heap = [[''a'' \<mapsto> ''1'']], world = () \<rparr>)) 1 ''a'' = Some ''1''
   \<and> deref (snd (defaultOptionsHandler
        \<lparr> ResourceOptions.headers = 0,
          authHeaders = ([] :: (string \<times> (unit \<Rightarrow> (string + string) \<times> unit)) list),
          url = ''https://x'', rateLimits = None, rateLimitDuration = None,
          ResourceOptions.agent = None \<rparr>
        no_options
        \<lparr> heap = [[''a'' \<mapsto> ''1'']], world = () \<rparr>)) 1 = [''a'' \<mapsto> ''1'']
   \<and> fst (defaultOptionsHandler
        \<lparr> ResourceOptions.headers = 0,
          authHeaders = [(''Authorization'', \<lambda>w::unit. (Inl ''denied'' :: string + string, w))],
          url = ''https://x'', rateLimits = None, rateLimitDuration = None,
          ResourceOptions.agent = None \<rparr>
        (no_options\<lparr>sudo := Some (SudoNumber 42)\<rparr>)
        \<lparr> heap = [[''a'' \<mapsto> ''1'']], world = () \<rparr>) = Inl ''denied''"
proof -
  let ?ok = "\<lparr> ResourceOptions.headers = 0,
          authHeaders = [(''Authorization'', \<lambda>w::unit. (Inr ''token'' :: string + string, w))],
          url = ''https://x'', rateLimits = None, rateLimitDuration = None,
          ResourceOptions.agent = None \<rparr>"
  let ?none = "\<lparr> ResourceOptions.headers = 0,
          authHeaders = ([] :: (string \<times> (unit \<Rightarrow> (string + string) \<times> unit)) list),
          url = ''https://x'', rateLimits = None, rateLimitDuration = None,
          ResourceOptions.agent = None \<rparr>"
  let ?no = "\<lparr> ResourceOptions.headers = 0,
          authHeaders = [(''Authorization'', \<lambda>w::unit. (Inl ''denied'' :: string + string, w))],
          url = ''https://x'', rateLimits = None, rateLimitDuration = None,
          ResourceOptions.agent = None \<rparr>"
  let ?co = "no_options\<lparr>sudo := Some (SudoNumber 42)\<rparr>"
  let ?s = "\<lparr> heap = [[''a'' \<mapsto> ''1'']], world = () \<rparr>"
  note ok = builder_frame [of ?s ?ok ?co]
  note none = builder_frame [of ?s ?none no_options]
  note no = builder_frame [of ?s ?no ?co]
  have n: "number_to_string 42 = ''42''" by code_simp
  have st: "staticHeaders ?ok ?co ?s = [''a'' \<mapsto> ''1'', ''sudo'' \<mapsto> ''42'']"
    by (simp add: staticHeaders_def no_options_def deref_def n)
  have 1: "deref (snd (defaultOptionsHandler ?ok ?co ?s)) 0 = [''a'' \<mapsto> ''1'']"
    using ok [THEN conjunct2, THEN conjunct1] by (simp add: deref_def)
  have 2: "deref (snd (defaultOptionsHandler ?ok ?co ?s)) 1
             = [''a'' \<mapsto> ''1'', ''sudo'' \<mapsto> ''42'', ''Authorization'' \<mapsto> ''token'']"
    using ok [THEN conjunct2, THEN conjunct2, THEN conjunct2, THEN conjunct1] by (simp add: st)
  have 3: "\<exists>d. fst (defaultOptionsHandler ?ok ?co ?s) = Inr d
      \<and> RequestOptions.headers d = Some 1
      \<and> RequestOptions.method' d = Some ''GET''
      \<and> RequestOptions.prefixUrl d = Some ''https://x''"
    using ok [THEN conjunct2, THEN conjunct2, THEN conjunct2, THEN conjunct2, THEN conjunct2,
              THEN conjunct2, THEN conjunct1]
    by (auto simp add: no_options_def)
  have 4: "deref (snd (defaultOptionsHandler ?none no_options ?s)) 1 = [''a'' \<mapsto> ''1'']"
    using none [THEN conjunct2, THEN conjunct2, THEN conjunct2, THEN conjunct2, THEN conjunct2,
                THEN conjunct1]
    by (simp add: no_options_def deref_def)
  have 5: "fst (defaultOptionsHandler ?no ?co ?s) = Inl ''denied''"
    using no [THEN conjunct2, THEN conjunct2, THEN conjunct2, THEN conjunct2, THEN conjunct2,
              THEN conjunct2, THEN conjunct2]
    by simp
  have 6: "deref (snd (defaultOptionsHandler ?ok ?co ?s)) 1 ''a'' = Some ''1''"
    using ok [THEN conjunct2, THEN conjunct2, THEN conjunct2, THEN conjunct2, THEN conjunct1,
              rule_format, of "''a''"]
    by (simp add: deref_def)
  from 1 2 3 4 5 6 show ?thesis by blast
qed

section \<open>The requester\<close>

lemma map_of_obj_set: "map_of (obj_set ps k v) = (map_of ps)(k \<mapsto> v)"
  by (induction ps k v rule: obj_set.induct) auto

lemma requester_lookup:
  assumes "m \<in> set methods"
  shows "map_of (createRequesterFn optionsHandler requestHandler ro) m
           = Some (requesterMethod optionsHandler requestHandler ro m)"
  using assms by (auto simp add: createRequesterFn_def methods_def map_of_obj_set)

lemma verbs_upper:
  "toUpperCase ''get'' = ''GET''" "toUpperCase ''post'' = ''POST''"
  "toUpperCase ''put'' = ''PUT''" "toUpperCase ''patch'' = ''PATCH''"
  "toUpperCase ''delete'' = ''DELETE''"
  by (simp_all add: toUpperCase_def upper_table_def)

lemma spread_method_method:
  "DefaultRequestOptions.method' (spread_method options M) = Some M"
  by (simp add: spread_method_def)

lemma built_method:
  "RequestOptions.method' (builtOptions ro (spread_method options M) h) = Some M"
  "RequestOptions.prefixUrl (builtOptions ro co h) = Some (ResourceOptions.url ro)"
  by (simp_all add: builtOptions_def spread_method_def)

text \<open>
  C4, as the code has it. With the identity options handler, for each of the five verbs
  and when the builder resolves (no auth header, or a first auth-header function that
  resolves): the method stored under the verb, called with endpoint \<open>e\<close>, is the request
  handler called with \<open>e\<close> and options whose method is the verb in upper case and whose
  prefixUrl is the url of the resource options.
\<close>

theorem verb_request:
  assumes "(m, M) \<in> set [(''get'', ''GET''), (''post'', ''POST''), (''put'', ''PUT''),
                          (''patch'', ''PATCH''), (''delete'', ''DELETE'')]"
    and "ResourceOptions.authHeaders ro = [] \<or>
         (\<exists>k f rest v w. ResourceOptions.authHeaders ro = (k, f) # rest
            \<and> f (world s) = (Inr v, w))"
  shows "\<exists>call d s'.
           map_of (createRequesterFn (\<lambda>serviceOptions requestOptions t. (Inr requestOptions, t))
                     requestHandler ro) m = Some call
         \<and> call e options s = requestHandler e d s'
         \<and> RequestOptions.method' d = Some M
         \<and> RequestOptions.prefixUrl d = Some (ResourceOptions.url ro)"
proof -
  from assms(1) have m: "m \<in> set methods" and M: "toUpperCase m = M"
    by (auto simp add: methods_def verbs_upper)
  let ?co = "spread_method options M"
  from assms(2) obtain s' where
    b: "defaultOptionsHandler ro ?co s = (Inr (builtOptions ro ?co (length (heap s))), s')"
    by (auto simp add: builder_no_auth builder_resolved)
  have "requesterMethod (\<lambda>serviceOptions requestOptions t. (Inr requestOptions, t))
          requestHandler ro m e options s
        = requestHandler e (builtOptions ro ?co (length (heap s))) s'"
    by (simp add: requesterMethod_def M b)
  then show ?thesis
    using requester_lookup [OF m] built_method by blast
qed

text \<open>
  \<open>createRequesterFn(identity, recording)({url: "https://x", ...}).get("widgets")\<close>: the
  recording handler logs the endpoint \<open>widgets\<close> with options of method \<open>GET\<close> and
  prefixUrl \<open>https://x\<close>.
\<close>

theorem verb_request_witness:
  "\<exists>call d s'.
     map_of (createRequesterFn (\<lambda>serviceOptions requestOptions t. (Inr requestOptions, t))
               (\<lambda>endpoint requestOptions t.
                  (Inr \<lparr> FormattedResponse.body = JNull, FormattedResponse.headers = Map.empty,
                          status = 200 \<rparr> :: string + FormattedResponse,
                   t\<lparr>world := world t @ [(endpoint, requestOptions)]\<rparr>))
               \<lparr> ResourceOptions.headers = 0, authHeaders = [], url = ''https://x'',
                 rateLimits = None, rateLimitDuration = None, ResourceOptions.agent = None \<rparr>)
       ''get'' = Some call
     \<and> call ''widgets'' None \<lparr> heap = [Map.empty], world = [] \<rparr>
         = (Inr \<lparr> FormattedResponse.body = JNull, FormattedResponse.headers = Map.empty,
                  status = 200 \<rparr>,
            s'\<lparr>world := world s' @ [(''widgets'', d)]\<rparr>)
     \<and> RequestOptions.method' d = Some ''GET''
     \<and> RequestOptions.prefixUrl d = Some ''https://x''"
  using verb_request [of "''get''" "''GET''"
      "\<lparr> ResourceOptions.headers = 0, authHeaders = [], url = ''https://x'',
         rateLimits = None, rateLimitDuration = None, ResourceOptions.agent = None \<rparr>"
      "\<lparr> heap = [Map.empty], world = [] \<rparr>"
      "\<lambda>endpoint requestOptions t.
                  (Inr \<lparr> FormattedResponse.body = JNull, FormattedResponse.headers = Map.empty,
                          status = 200 \<rparr> :: string + FormattedResponse,
                   t\<lparr>world := world t @ [(endpoint, requestOptions)]\<rparr>)"
      "''widgets''" None]
  by simp

text \<open>
  The claim as stated fails where the first auth-header function is rejected: the
  recording handler logs nothing, the call fails with the error of that function.
\<close>

theorem verb_request_counterexample:
  "map_option (\<lambda>call. call ''widgets'' None \<lparr> heap = [Map.empty], world = [] \<rparr>)
     (map_of (createRequesterFn (\<lambda>serviceOptions requestOptions t. (Inr requestOptions, t))
               (\<lambda>endpoint requestOptions t.
                  (Inr \<lparr> FormattedResponse.body = JNull, FormattedResponse.headers = Map.empty,
                          status = 200 \<rparr> :: string + FormattedResponse,
                   t\<lparr>world := world t @ [(endpoint, requestOptions)]\<rparr>))
               \<lparr> ResourceOptions.headers = 0,
                 authHeaders = [(''Authorization'', \<lambda>w. (Inl ''denied'', w))],
                 url = ''https://x'',
                 rateLimits = None, rateLimitDuration = None, ResourceOptions.agent = None \<rparr>)
       ''get'')
   = Some (Inl ''denied'', \<lparr> heap = [Map.empty, Map.empty], world = [] \<rparr>)"
  by (simp add: requester_lookup methods_def requesterMethod_def
      builder_rejected [where rest = "[]"] staticHeaders_def spread_method_def no_options_def
      deref_def)

text \<open>
  C9. For each verb, an error of the auth-header function, of the options handler or of
  the request handler is the error of the verb call, as the same value. After a rejected
  auth-header function the world is as that function left it: no handler ran.
\<close>

theorem errors_propagate:
  assumes "m \<in> set methods"
  shows "\<exists>call. map_of (createRequesterFn optionsHandler requestHandler ro) m = Some call
     \<and> (\<forall>k f rest err w. ResourceOptions.authHeaders ro = (k, f) # rest
            \<and> f (world s) = (Inl err, w) \<longrightarrow>
          (\<exists>s1. call e options s = (Inl err, s1) \<and> world s1 = w))
     \<and> (\<forall>d s1 err s2.
            defaultOptionsHandler ro (spread_method options (toUpperCase m)) s = (Inr d, s1)
            \<and> optionsHandler ro d s1 = (Inl err, s2) \<longrightarrow>
          call e options s = (Inl err, s2))
     \<and> (\<forall>d s1 r s2 err s3.
            defaultOptionsHandler ro (spread_method options (toUpperCase m)) s = (Inr d, s1)
            \<and> optionsHandler ro d s1 = (Inr r, s2)
            \<and> requestHandler e r s2 = (Inl err, s3) \<longrightarrow>
          call e options s = (Inl err, s3))"
proof (intro exI conjI)
  show "map_of (createRequesterFn optionsHandler requestHandler ro) m
          = Some (requesterMethod optionsHandler requestHandler ro m)"
    by (rule requester_lookup [OF assms])
  show "\<forall>k f rest err w. ResourceOptions.authHeaders ro = (k, f) # rest
            \<and> f (world s) = (Inl err, w) \<longrightarrow>
          (\<exists>s1. requesterMethod optionsHandler requestHandler ro m e options s = (Inl err, s1)
             \<and> world s1 = w)"
    by (auto simp add: requesterMethod_def builder_rejected)
  show "\<forall>d s1 err s2.
            defaultOptionsHandler ro (spread_method options (toUpperCase m)) s = (Inr d, s1)
            \<and> optionsHandler ro d s1 = (Inl err, s2) \<longrightarrow>
          requesterMethod optionsHandler requestHandler ro m e options s = (Inl err, s2)"
    by (simp add: requesterMethod_def)
  show "\<forall>d s1 r s2 err s3.
            defaultOptionsHandler ro (spread_method options (toUpperCase m)) s = (Inr d, s1)
            \<and> optionsHandler ro d s1 = (Inr r, s2)
            \<and> requestHandler e r s2 = (Inl err, s3) \<longrightarrow>
          requesterMethod optionsHandler requestHandler ro m e options s = (Inl err, s3)"
    by (simp add: requesterMethod_def)
qed

text \<open>
  Three calls of \<open>get\<close> in a world that logs what ran: the auth-header function is
  rejected, then the options handler, then the request handler.
\<close>

theorem errors_propagate_witness:
  "(\<exists>call s1. map_of (createRequesterFn
                (\<lambda>serviceOptions requestOptions t. (Inr requestOptions, t\<lparr>world := world t @ [''options'']\<rparr>))
                (\<lambda>endpoint requestOptions t.
                   (Inr \<lparr> FormattedResponse.body = JNull, FormattedResponse.headers = Map.empty,
                           status = 200 \<rparr> :: string + FormattedResponse,
                    t\<lparr>world := world t @ [''request'']\<rparr>))
                \<lparr> ResourceOptions.headers = 0,
                  authHeaders = [(''Authorization'', \<lambda>w. (Inl ''denied'', w @ [''auth'']))],
                  url = ''https://x'',
                  rateLimits = None, rateLimitDuration = None, ResourceOptions.agent = None \<rparr>)
              ''get'' = Some call
      \<and> call ''widgets'' None \<lparr> heap = [Map.empty], world = [] \<rparr> = (Inl ''denied'', s1)
      \<and> world s1 = [''auth''])
   \<and> (\<exists>call s2. map_of (createRequesterFn
                (\<lambda>serviceOptions requestOptions t. (Inl ''bad options'', t\<lparr>world := world t @ [''options'']\<rparr>))
                (\<lambda>endpoint requestOptions t.
                   (Inr \<lparr> FormattedResponse.body = JNull, FormattedResponse.headers = Map.empty,
                           status = 200 \<rparr> :: string + FormattedResponse,
                    t\<lparr>world := world t @ [''request'']\<rparr>))
                \<lparr> ResourceOptions.headers = 0, authHeaders = [], url = ''https://x'',
                  rateLimits = None, rateLimitDuration = None, ResourceOptions.agent = None \<rparr>)
              ''get'' = Some call
      \<and> call ''widgets'' None \<lparr> heap = [Map.empty], world = [] \<rparr> = (Inl ''bad options'', s2)
      \<and> world s2 = [''options''])
   \<and> (\<exists>call s3. map_of (createRequesterFn
                (\<lambda>serviceOptions requestOptions t. (Inr requestOptions, t\<lparr>world := world t @ [''options'']\<rparr>))
                (\<lambda>endpoint requestOptions t.
                   (Inl ''timeout'' :: string + FormattedResponse,
                    t\<lparr>world := world t @ [''request'']\<rparr>))
                \<lparr> ResourceOptions.headers = 0, authHeaders = [], url = ''https://x'',
                  rateLimits = None, rateLimitDuration = None, ResourceOptions.agent = None \<rparr>)
              ''get'' = Some call
      \<and> call ''widgets'' None \<lparr> heap = [Map.empty], world = [] \<rparr> = (Inl ''timeout'', s3)
      \<and> world s3 = [''options'', ''request''])"
proof -
  let ?s = "\<lparr> heap = [Map.empty], world = [] :: string list \<rparr>"
  let ?ok = "\<lambda>(serviceOptions :: (string list, string) ResourceOptions) (requestOptions :: RequestOptions)
              (t :: string list js_state).
               (Inr requestOptions :: string + RequestOptions, t\<lparr>world := world t @ [''options'']\<rparr>)"
  let ?bad = "\<lambda>(serviceOptions :: (string list, string) ResourceOptions) (requestOptions :: RequestOptions)
              (t :: string list js_state).
               (Inl ''bad options'' :: string + RequestOptions, t\<lparr>world := world t @ [''options'']\<rparr>)"
  let ?rh = "\<lambda>(endpoint :: string) (requestOptions :: RequestOptions) (t :: string list js_state).
                   (Inr \<lparr> FormattedResponse.body = JNull, FormattedResponse.headers = Map.empty,
                           status = 200 \<rparr> :: string + FormattedResponse,
                    t\<lparr>world := world t @ [''request'']\<rparr>)"
  let ?to = "\<lambda>(endpoint :: string) (requestOptions :: RequestOptions) (t :: string list js_state).
                   (Inl ''timeout'' :: string + FormattedResponse,
                    t\<lparr>world := world t @ [''request'']\<rparr>)"
  let ?auth = "\<lparr> ResourceOptions.headers = 0,
                  authHeaders = [(''Authorization'', \<lambda>w. (Inl ''denied'' :: string + string, w @ [''auth'']))],
                  url = ''https://x'',
                  rateLimits = None, rateLimitDuration = None, ResourceOptions.agent = None \<rparr>"
  let ?ro = "\<lparr> ResourceOptions.headers = 0,
               authHeaders = ([] :: (string \<times> (string list \<Rightarrow> (string + string) \<times> string list)) list),
               url = ''https://x'',
               rateLimits = None, rateLimitDuration = None, ResourceOptions.agent = None \<rparr>"
  have g: "''get'' \<in> set methods" by (simp add: methods_def)
  have b: "defaultOptionsHandler ?ro (spread_method None (toUpperCase ''get'')) ?s
           = (Inr (builtOptions ?ro (spread_method None (toUpperCase ''get'')) 1),
              \<lparr> heap = [Map.empty, staticHeaders ?ro (spread_method None (toUpperCase ''get'')) ?s],
                world = [] \<rparr>)"
    by (simp add: builder_no_auth)
  have 1: "\<exists>call s1. map_of (createRequesterFn ?ok ?rh ?auth) ''get'' = Some call
      \<and> call ''widgets'' None ?s = (Inl ''denied'', s1) \<and> world s1 = [''auth'']"
    using errors_propagate [OF g, of ?ok ?rh ?auth ?s "''widgets''" None] by auto
  have 2: "\<exists>call s2. map_of (createRequesterFn ?bad ?rh ?ro) ''get'' = Some call
      \<and> call ''widgets'' None ?s = (Inl ''bad options'', s2) \<and> world s2 = [''options'']"
    using errors_propagate [OF g, of ?bad ?rh ?ro ?s "''widgets''" None] b by auto
  have 3: "\<exists>call s3. map_of (createRequesterFn ?ok ?to ?ro) ''get'' = Some call
      \<and> call ''widgets'' None ?s = (Inl ''timeout'', s3) \<and> world s3 = [''options'', ''request'']"
    using errors_propagate [OF g, of ?ok ?to ?ro ?s "''widgets''" None] b by auto
  from 1 2 3 show ?thesis by blast
qed

text \<open>
  C10. For each of the five verbs, the method stored under the verb is this: it runs the
  builder on the caller's options with the method replaced by the verb in upper case,
  whatever method the caller supplied and also when the caller supplied no options, hands
  the options that the builder resolved to, whose method is the verb in upper case, to
  the options handler, and hands the outcome of that to the request handler. So a method
  of the caller reaches neither the builder nor the transport.
\<close>

theorem method_injected:
  assumes "(m, M) \<in> set [(''get'', ''GET''), (''post'', ''POST''), (''put'', ''PUT''),
                          (''patch'', ''PATCH''), (''delete'', ''DELETE'')]"
  shows "\<exists>call. map_of (createRequesterFn optionsHandler requestHandler ro) m = Some call
     \<and> (\<forall>x. call e (Some (co\<lparr>DefaultRequestOptions.method' := x\<rparr>)) s
           = (case defaultOptionsHandler ro (co\<lparr>DefaultRequestOptions.method' := Some M\<rparr>) s of
                (Inl err, s1) \<Rightarrow> (Inl err, s1)
              | (Inr d, s1) \<Rightarrow>
                  (case optionsHandler ro d s1 of
                     (Inl err, s2) \<Rightarrow> (Inl err, s2)
                   | (Inr r, s2) \<Rightarrow> requestHandler e r s2)))
     \<and> call e None s
           = (case defaultOptionsHandler ro
                     (no_options\<lparr>DefaultRequestOptions.method' := Some M\<rparr>) s of
                (Inl err, s1) \<Rightarrow> (Inl err, s1)
              | (Inr d, s1) \<Rightarrow>
                  (case optionsHandler ro d s1 of
                     (Inl err, s2) \<Rightarrow> (Inl err, s2)
                   | (Inr r, s2) \<Rightarrow> requestHandler e r s2))
     \<and> (\<forall>d s1. defaultOptionsHandler ro (co\<lparr>DefaultRequestOptions.method' := Some M\<rparr>) s
                  = (Inr d, s1) \<longrightarrow>
          RequestOptions.method' d = Some M)"
proof (intro exI conjI)
  from assms have m: "m \<in> set methods" and M: "toUpperCase m = M"
    by (auto simp add: methods_def verbs_upper)
  show "map_of (createRequesterFn optionsHandler requestHandler ro) m
          = Some (requesterMethod optionsHandler requestHandler ro m)"
    by (rule requester_lookup [OF m])
  show "\<forall>x. requesterMethod optionsHandler requestHandler ro m e
               (Some (co\<lparr>DefaultRequestOptions.method' := x\<rparr>)) s
           = (case defaultOptionsHandler ro (co\<lparr>DefaultRequestOptions.method' := Some M\<rparr>) s of
                (Inl err, s1) \<Rightarrow> (Inl err, s1)
              | (Inr d, s1) \<Rightarrow>
                  (case optionsHandler ro d s1 of
                     (Inl err, s2) \<Rightarrow> (Inl err, s2)
                   | (Inr r, s2) \<Rightarrow> requestHandler e r s2))"
    by (simp add: requesterMethod_def spread_method_def M)
  show "requesterMethod optionsHandler requestHandler ro m e None s
           = (case defaultOptionsHandler ro
                     (no_options\<lparr>DefaultRequestOptions.method' := Some M\<rparr>) s of
                (Inl err, s1) \<Rightarrow> (Inl err, s1)
              | (Inr d, s1) \<Rightarrow>
                  (case optionsHandler ro d s1 of
                     (Inl err, s2) \<Rightarrow> (Inl err, s2)
                   | (Inr r, s2) \<Rightarrow> requestHandler e r s2))"
    by (simp add: requesterMethod_def spread_method_def M)
  have b: "RequestOptions.method' (builtOptions ro (co\<lparr>DefaultRequestOptions.method' := Some M\<rparr>) h)
             = Some M" for h
    by (simp add: builtOptions_def)
  show "\<forall>d s1. defaultOptionsHandler ro (co\<lparr>DefaultRequestOptions.method' := Some M\<rparr>) s
                  = (Inr d, s1) \<longrightarrow>
          RequestOptions.method' d = Some M"
    by (rule auth_cases [where ro = ro and s = s])
       (auto simp add: builder_no_auth builder_resolved builder_rejected b)
qed

text \<open>
  \<open>post("widgets", {method: "DELETE"})\<close> with the identity options handler and a request
  handler that logs what it receives: the log holds \<open>widgets\<close> with options of method
  \<open>POST\<close>.
\<close>

theorem method_injected_witness:
  "\<exists>call d s1.
     map_of (createRequesterFn (\<lambda>serviceOptions requestOptions t. (Inr requestOptions, t))
               (\<lambda>endpoint requestOptions t.
                  (Inr \<lparr> FormattedResponse.body = JNull, FormattedResponse.headers = Map.empty,
                          status = 200 \<rparr> :: string + FormattedResponse,
                   t\<lparr>world := world t @ [(endpoint, requestOptions)]\<rparr>))
               \<lparr> ResourceOptions.headers = 0, authHeaders = [], url = ''https://x'',
                 rateLimits = None, rateLimitDuration = None, ResourceOptions.agent = None \<rparr>)
       ''post'' = Some call
     \<and> call ''widgets'' (Some (no_options\<lparr>DefaultRequestOptions.method' := Some ''DELETE''\<rparr>))
          \<lparr> heap = [Map.empty], world = [] \<rparr>
         = (Inr \<lparr> FormattedResponse.body = JNull, FormattedResponse.headers = Map.empty,
                  status = 200 \<rparr>,
            s1\<lparr>world := [(''widgets'', d)]\<rparr>)
     \<and> RequestOptions.method' d = Some ''POST''"
proof -
  let ?oh = "\<lambda>(serviceOptions :: ((string \<times> RequestOptions) list, string) ResourceOptions)
              (requestOptions :: RequestOptions) (t :: (string \<times> RequestOptions) list js_state).
               (Inr requestOptions :: string + RequestOptions, t)"
  let ?rh = "\<lambda>(endpoint :: string) (requestOptions :: RequestOptions)
              (t :: (string \<times> RequestOptions) list js_state).
                  (Inr \<lparr> FormattedResponse.body = JNull, FormattedResponse.headers = Map.empty,
                          status = 200 \<rparr> :: string + FormattedResponse,
                   t\<lparr>world := world t @ [(endpoint, requestOptions)]\<rparr>)"
  let ?ro = "\<lparr> ResourceOptions.headers = 0,
            authHeaders = ([] :: (string \<times> ((string \<times> RequestOptions) list
                                     \<Rightarrow> (string + string) \<times> (string \<times> RequestOptions) list)) list),
            url = ''https://x'',
            rateLimits = None, rateLimitDuration = None, ResourceOptions.agent = None \<rparr>"
  let ?s = "\<lparr> heap = [Map.empty], world = [] :: (string \<times> RequestOptions) list \<rparr>"
  let ?co = "no_options\<lparr>DefaultRequestOptions.method' := Some ''POST''\<rparr>"
  have p: "(''post'', ''POST'') \<in> set [(''get'', ''GET''), (''post'', ''POST''), (''put'', ''PUT''),
                          (''patch'', ''PATCH''), (''delete'', ''DELETE'')]"
    by simp
  from method_injected [OF p, where optionsHandler = ?oh and requestHandler = ?rh and ro = ?ro
      and e = "''widgets''" and co = no_options and s = ?s]
  obtain call where c: "map_of (createRequesterFn ?oh ?rh ?ro) ''post'' = Some call"
    and r: "call ''widgets'' (Some (no_options\<lparr>DefaultRequestOptions.method' := Some ''DELETE''\<rparr>)) ?s
           = (case defaultOptionsHandler ?ro ?co ?s of
                (Inl err, s1) \<Rightarrow> (Inl err, s1)
              | (Inr d, s1) \<Rightarrow>
                  (case ?oh ?ro d s1 of
                     (Inl err, s2) \<Rightarrow> (Inl err, s2)
                   | (Inr r, s2) \<Rightarrow> ?rh ''widgets'' r s2))"
    and g: "\<forall>d s1. defaultOptionsHandler ?ro ?co ?s = (Inr d, s1) \<longrightarrow>
              RequestOptions.method' d = Some ''POST''"
    by blast
  obtain d s1 where b: "defaultOptionsHandler ?ro ?co ?s = (Inr d, s1)" and w: "world s1 = []"
    by (simp add: builder_no_auth)
  from g b have "RequestOptions.method' d = Some ''POST''" by blast
  moreover from r b w have "call ''widgets''
      (Some (no_options\<lparr>DefaultRequestOptions.method' := Some ''DELETE''\<rparr>)) ?s
         = (Inr \<lparr> FormattedResponse.body = JNull, FormattedResponse.headers = Map.empty,
                  status = 200 \<rparr>,
            s1\<lparr>world := [(''widgets'', d)]\<rparr>)"
    by simp
  ultimately show ?thesis using c by blast
qed

section \<open>Preset constructors: the merge and the loop\<close>



lemma presetEntries_other:
  "presetEntries es cfg acc = Inr out \<Longrightarrow> k \<notin> fst ` set es \<Longrightarrow> map_of out k = map_of acc k"
proof (induction es cfg acc rule: presetEntries.induct)
  case (1 customConfig result)
  then show ?case by simp
next
  case (2 key Constructor entries customConfig result)
  then show ?case
    by (auto simp add: map_of_obj_set split: if_splits sum.splits)
qed

lemma presetEntries_entry:
  "presetEntries es cfg acc = Inr out \<Longrightarrow> distinct (map fst es) \<Longrightarrow> (k, v) \<in> set es \<Longrightarrow>
     \<exists>v'. map_of out k = Some v'
       \<and> (if is_function v then createPresetConstructor v cfg = Inr v' else v' = v)"
proof (induction es cfg acc rule: presetEntries.induct)
  case (1 customConfig result)
  then show ?case by simp
next
  case (2 key Constructor entries customConfig result)
  show ?case
  proof (cases "(k, v) = (key, Constructor)")
    case True
    with "2.prems" have "k \<notin> fst ` set entries" by auto
    with "2.prems"(1) True show ?thesis
      by (auto simp add: map_of_obj_set split: if_splits sum.splits dest: presetEntries_other)
  next
    case False
    with "2.prems" have "(k, v) \<in> set entries" "distinct (map fst entries)" by auto
    with "2.prems"(1) "2.IH" show ?thesis
      by (auto split: if_splits sum.splits)
  qed
qed

lemma presetEntries_total:
  "\<forall>v \<in> snd ` set es. \<forall>n. v \<noteq> Function n \<Longrightarrow> \<exists>out. presetEntries es cfg acc = Inr out"
proof (induction es cfg acc rule: presetEntries.induct)
  case (1 customConfig result)
  then show ?case by simp
next
  case (2 key Constructor entries customConfig result)
  then show ?case
    by (cases Constructor) auto
qed




text \<open>
  C8, as the code has it. The test is \<open>typeof Constructor === 'function'\<close>: for a mapping
  that \<open>presetResourceArguments\<close> accepts, every value that is no function is in the
  result under the same key, as the same value.
\<close>

theorem plain_value_passes:
  assumes "distinct (map fst resources)" and "(name, Value x) \<in> set resources"
    and "\<forall>v \<in> snd ` set resources. \<forall>n. v \<noteq> Function n"
  shows "\<exists>out. presetResourceArguments resources customConfig = Inr out
           \<and> map_of out name = Some (Value x)"
proof -
  from presetEntries_total [OF assms(3)] obtain out
    where out: "presetEntries resources customConfig [] = Inr out" by blast
  from presetEntries_entry [OF out assms(1,2)] have "map_of out name = Some (Value x)"
    by simp
  with out show ?thesis
    by (simp add: presetResourceArguments_def)
qed

text \<open>A class and a plain string side by side: the string passes through.\<close>

theorem plain_value_passes_witness:
  "\<exists>out. presetResourceArguments
            [(''A'', Class (\<lambda>args. args)), (''version'', Value (JStr ''v4''))]
            [(''base'', JNum 1)] = Inr out
     \<and> map_of out ''version'' = Some (Value (JStr ''v4''))"
  using plain_value_passes [of "[(''A'', Class (\<lambda>args. args)), (''version'', Value (JStr ''v4''))]"
      "''version''" "JStr ''v4''" "[(''base'', JNum 1)]"]
  by simp

text \<open>
  The claim as stated fails for a value that is a function and no constructor, such as
  an arrow function: it takes the branch of the constructors, and evaluating
  \<open>class extends\<close> on it raises a \<open>TypeError\<close>, so there is no output mapping at all.
\<close>

theorem plain_value_passes_counterexample:
  "presetResourceArguments [(''helper'', Function ''() => 1'' :: unit resource_value)] []
     = Inl TypeError"
  by (simp add: presetResourceArguments_def)

section \<open>The query string\<close>

lemma lower_table_range:
  "map_of lower_table c = Some l \<Longrightarrow> \<not> upper_case l"
  by (auto simp add: lower_table_def upper_case_def split: if_splits)

lemma lower_table_dom:
  "map_of lower_table c = None \<Longrightarrow> \<not> upper_case c"
  by (simp add: lower_table_def upper_case_def split: if_splits)

lemma decamelize_no_upper:
  assumes "c \<in> set (decamelize k)"
  shows "\<not> upper_case c"
proof -
  from assms obtain c0 where
    c: "c \<in> set (case map_of lower_table c0 of Some l \<Rightarrow> [CHR ''_'', l] | None \<Rightarrow> [c0])"
    by (auto simp add: decamelize_def)
  have u: "\<not> upper_case CHR ''_''"
    by (simp add: upper_case_def)
  show ?thesis
  proof (cases "map_of lower_table c0")
    case None
    with c show ?thesis by (simp add: lower_table_dom)
  next
    case (Some l)
    with c have "c = CHR ''_'' \<or> c = l" by simp
    with u lower_table_range [OF Some] show ?thesis by blast
  qed
qed

lemma obj_set_fresh:
  "k \<notin> fst ` set acc \<Longrightarrow> obj_set acc k v = acc @ [(k, v)]"
  by (induction acc k v rule: obj_set.induct) auto

lemma spread_distinct:
  "distinct (map fst (acc @ xs)) \<Longrightarrow> spread acc xs = acc @ xs"
proof (induction xs arbitrary: acc)
  case Nil
  then show ?case by (simp add: spread_def)
next
  case (Cons p xs)
  obtain k v where p: "p = (k, v)" by (cases p)
  from Cons.prems have f: "k \<notin> fst ` set acc" and d: "distinct (map fst ((acc @ [(k, v)]) @ xs))"
    by (auto simp add: p)
  have "spread acc ((k, v) # xs) = spread (obj_set acc k v) xs"
    by (simp add: spread_def)
  also have "\<dots> = spread (acc @ [(k, v)]) xs"
    by (simp add: obj_set_fresh [OF f])
  also have "\<dots> = (acc @ [(k, v)]) @ xs"
    by (rule Cons.IH [OF d])
  finally show ?case by (simp add: p)
qed

lemma decamelizeKeys_collision_free:
  assumes "distinct (map (\<lambda>(k, v). decamelize k) ps)"
  shows "decamelizeKeys (JObj ps) = JObj (map (\<lambda>(k, v). (decamelize k, decamelizeKeys v)) ps)"
proof -
  have "map fst (map (\<lambda>(k, v). (decamelize k, decamelizeKeys v)) ps)
          = map (\<lambda>(k, v). decamelize k) ps"
    by (induction ps) auto
  with assms have "distinct (map fst ([] @ map (\<lambda>(k, v). (decamelize k, decamelizeKeys v)) ps))"
    by (simp only: append_Nil)
  from spread_distinct [OF this] show ?thesis by simp
qed

lemma stringify_value_leaves:
  "collision_free x \<Longrightarrow>
     stringify_value path (decamelizeKeys x)
       = map (\<lambda>(p, v). path @ render_steps p @ ''='' @ percent_encode (scalar_text v))
           (leaves_at x)"
proof (induction x arbitrary: path rule: decamelizeKeys.induct)
  case (1 xs)
  have "stringify_value (path @ ''[]'') (decamelizeKeys x)
          = map (\<lambda>(p, v). path @ render_steps (Element # p) @ ''='' @ percent_encode (scalar_text v))
              (leaves_at x)" if "x \<in> set xs" for x
    using "1.IH" [OF that, of "path @ ''[]''"] "1.prems" that by simp
  then show ?case
    by (simp add: map_concat comp_def case_prod_unfold cong: map_cong)
next
  case (2 ps)
  from "2.prems" have d: "distinct (map (\<lambda>(k, v). decamelize k) ps)"
    and c: "\<And>k v. (k, v) \<in> set ps \<Longrightarrow> collision_free v" by auto
  have "stringify_value (path @ ''['' @ percent_encode (decamelize k) @ '']'') (decamelizeKeys x)
          = map (\<lambda>(p, v). path @ render_steps (Field k # p) @ ''='' @ percent_encode (scalar_text v))
              (leaves_at x)" if "(k, x) \<in> set ps" for k x
    using "2.IH" [OF that refl c [OF that], of "path @ ''['' @ percent_encode (decamelize k) @ '']''"]
    by simp
  then have "\<And>kx. kx \<in> set ps \<Longrightarrow>
      stringify_value (path @ ''['' @ percent_encode (decamelize (fst kx)) @ '']'')
        (decamelizeKeys (snd kx))
      = map (\<lambda>pv. path @ render_steps (Field (fst kx) # fst pv) @ ''=''
                     @ percent_encode (scalar_text (snd pv)))
          (leaves_at (snd kx))"
    by (auto simp add: case_prod_unfold)
  then show ?case
    unfolding decamelizeKeys_collision_free [OF d]
    by (simp add: map_concat comp_def case_prod_unfold cong: map_cong)
qed simp_all

lemma formatQuery_segments:
  assumes "collision_free (JObj m)"
  shows "formatQuery (Some m) = join ''&'' (snake_case_segments m)"
proof -
  from assms have d: "distinct (map (\<lambda>(k, v). decamelize k) m)"
    and c: "\<And>kx. kx \<in> set m \<Longrightarrow> collision_free (snd kx)" by auto
  have "segments (map (\<lambda>(k, v). (decamelize k, decamelizeKeys v)) m) = snake_case_segments m"
    by (simp add: segments_def snake_case_segments_def comp_def case_prod_unfold
        stringify_value_leaves [OF c] cong: map_cong)
  then show ?thesis
    unfolding formatQuery_def Let_def option.case decamelizeKeys_collision_free [OF d]
    by simp
qed

lemma sublist_join:
  "x \<in> set xs \<Longrightarrow> sublist x (join sep xs)"
proof (induction sep xs rule: join.induct)
  case (3 sep y z zs)
  show ?case
  proof (cases "x = y")
    case True
    then show ?thesis by simp
  next
    case False
    with 3 have "sublist x (join sep (z # zs))" by simp
    then have "sublist x ((y @ sep) @ join sep (z # zs))"
      by (metis sublist_append)
    then show ?thesis by simp
  qed
qed simp_all

lemma sublist_trans: "sublist xs ys \<Longrightarrow> sublist ys zs \<Longrightarrow> sublist xs zs"
  by (rule sublist_order.order_trans)

lemma percent_encode_unreserved:
  "\<forall>c \<in> set s. unreserved c \<Longrightarrow> percent_encode s = s"
  by (induction s) (simp_all add: percent_encode_def)

lemma scalars_leaves: "scalars x = map snd (leaves_at x)"
  by (induction x rule: scalars.induct)
     (auto simp add: map_concat comp_def case_prod_unfold intro!: arg_cong [where f = concat])

lemma scalar_leaf: "is_scalar x \<Longrightarrow> leaves_at x = [([], x)]"
  by (cases x) simp_all

lemma leaf_in_query:
  assumes "collision_free (JObj m)" and "(k, x) \<in> set m" and "(p, v) \<in> set (leaves_at x)"
  shows "sublist (percent_encode (decamelize k) @ render_steps p @ ''=''
                    @ percent_encode (scalar_text v))
           (formatQuery (Some m))"
proof -
  from assms(2,3) have "percent_encode (decamelize k) @ render_steps p @ ''=''
                    @ percent_encode (scalar_text v) \<in> set (snake_case_segments m)"
    by (force simp add: snake_case_segments_def)
  then show ?thesis
    unfolding formatQuery_segments [OF assms(1)] by (rule sublist_join)
qed

lemma scalar_in_query:
  assumes "collision_free (JObj m)" and "v \<in> set (scalars (JObj m))"
  shows "sublist (''='' @ percent_encode (scalar_text v)) (formatQuery (Some m))"
proof -
  from assms(2) obtain k x where kx: "(k, x) \<in> set m" "v \<in> set (scalars x)" by auto
  from kx(2) obtain p where p: "(p, v) \<in> set (leaves_at x)"
    by (auto simp add: scalars_leaves)
  have "sublist (''='' @ percent_encode (scalar_text v))
          ((percent_encode (decamelize k) @ render_steps p) @ ''=''
             @ percent_encode (scalar_text v))"
    by (rule sublist_append_leftI)
  with leaf_in_query [OF assms(1) kx(1) p] show ?thesis
    by (auto intro: sublist_trans)
qed

text \<open>
  C7, on the libraries as the spec describes them. \<open>formatQuery\<close> of no mapping and of
  the empty mapping is the empty string. A decamelized key holds no upper-case letter.
  For a mapping \<open>m\<close> in which no two keys of one mapping decamelize to the same name:
  \<open>formatQuery(m)\<close> is, joined by \<open>&\<close>, one segment for each leaf of \<open>m\<close>, made of the
  keys on the way to the leaf in snake_case and URL-encoded (the first as it is, the
  keys of nested mappings in brackets), \<open>[]\<close> for each array on the way, \<open>=\<close> and the
  URL-encoded text of the leaf; so the result contains that segment for every leaf, the
  segment \<open>k[]=x\<close> for every scalar \<open>x\<close> of an array-valued field \<open>k\<close>, every leaf value
  in its URL-encoded form, and every leaf value as it is when all its characters are
  unreserved.
\<close>

theorem query_format:
  "formatQuery None = [] \<and> formatQuery (Some []) = []
   \<and> (\<forall>k c. c \<in> set (decamelize k) \<longrightarrow> \<not> upper_case c)
   \<and> (collision_free (JObj m) \<longrightarrow>
        formatQuery (Some m) = join ''&'' (snake_case_segments m)
      \<and> (\<forall>k x p v. (k, x) \<in> set m \<and> (p, v) \<in> set (leaves_at x) \<longrightarrow>
            sublist (percent_encode (decamelize k) @ render_steps p @ ''=''
                       @ percent_encode (scalar_text v))
              (formatQuery (Some m)))
      \<and> (\<forall>k xs x. (k, JArr xs) \<in> set m \<and> x \<in> set xs \<and> is_scalar x \<longrightarrow>
            sublist (percent_encode (decamelize k) @ ''[]='' @ percent_encode (scalar_text x))
              (formatQuery (Some m)))
      \<and> (\<forall>v \<in> set (scalars (JObj m)).
            sublist (''='' @ percent_encode (scalar_text v)) (formatQuery (Some m)))
      \<and> (\<forall>v \<in> set (scalars (JObj m)). (\<forall>c \<in> set (scalar_text v). unreserved c) \<longrightarrow>
            sublist (scalar_text v) (formatQuery (Some m))))"
proof (intro conjI impI)
  show "formatQuery None = []" "formatQuery (Some []) = []"
    by (simp_all add: formatQuery_def segments_def spread_def)
  show "\<forall>k c. c \<in> set (decamelize k) \<longrightarrow> \<not> upper_case c"
    by (blast dest: decamelize_no_upper)
next
  assume cf: "collision_free (JObj m)"
  show "formatQuery (Some m) = join ''&'' (snake_case_segments m)"
    by (rule formatQuery_segments [OF cf])
  show "\<forall>k x p v. (k, x) \<in> set m \<and> (p, v) \<in> set (leaves_at x) \<longrightarrow>
            sublist (percent_encode (decamelize k) @ render_steps p @ ''=''
                       @ percent_encode (scalar_text v))
              (formatQuery (Some m))"
    by (blast intro: leaf_in_query [OF cf])
  show "\<forall>k xs x. (k, JArr xs) \<in> set m \<and> x \<in> set xs \<and> is_scalar x \<longrightarrow>
            sublist (percent_encode (decamelize k) @ ''[]='' @ percent_encode (scalar_text x))
              (formatQuery (Some m))"
  proof (intro allI impI, elim conjE)
    fix k xs x
    assume a: "(k, JArr xs) \<in> set m" "x \<in> set xs" "is_scalar x"
    from a(2,3) have "([Element], x) \<in> set (leaves_at (JArr xs))"
      by (force simp add: scalar_leaf)
    from leaf_in_query [OF cf a(1) this]
    show "sublist (percent_encode (decamelize k) @ ''[]='' @ percent_encode (scalar_text x))
              (formatQuery (Some m))"
      by simp
  qed
  show "\<forall>v \<in> set (scalars (JObj m)).
            sublist (''='' @ percent_encode (scalar_text v)) (formatQuery (Some m))"
    by (blast intro: scalar_in_query [OF cf])
  show "\<forall>v \<in> set (scalars (JObj m)). (\<forall>c \<in> set (scalar_text v). unreserved c) \<longrightarrow>
            sublist (scalar_text v) (formatQuery (Some m))"
  proof (intro ballI impI)
    fix v assume v: "v \<in> set (scalars (JObj m))" and u: "\<forall>c \<in> set (scalar_text v). unreserved c"
    have "sublist (scalar_text v) (''='' @ scalar_text v)"
      by (rule sublist_append_leftI)
    with scalar_in_query [OF cf v] show "sublist (scalar_text v) (formatQuery (Some m))"
      by (auto simp add: percent_encode_unreserved [OF u] intro: sublist_trans)
  qed
qed

text \<open>
  The claim as stated fails twice. A leaf value with a character that URL encoding
  replaces is not in the result as it is: \<open>formatQuery({q: "a b"})\<close> is \<open>q=a%20b\<close>. And
  of two keys that decamelize to one name the mapping keeps one value, so a leaf is
  lost: \<open>formatQuery({userName: "first", user_name: "last"})\<close> is \<open>user_name=last\<close>.
\<close>

theorem query_format_counterexample:
  "formatQuery (Some [(''q'', JStr ''a b'')]) = ''q=a%20b''
   \<and> \<not> sublist ''a b'' (formatQuery (Some [(''q'', JStr ''a b'')]))
   \<and> formatQuery (Some [(''userName'', JStr ''first''), (''user_name'', JStr ''last'')])
       = ''user_name=last''
   \<and> \<not> sublist ''first''
         (formatQuery (Some [(''userName'', JStr ''first''), (''user_name'', JStr ''last'')]))"
proof -
  have f: "formatQuery (Some [(''q'', JStr ''a b'')]) = ''q=a%20b''"
    "formatQuery (Some [(''userName'', JStr ''first''), (''user_name'', JStr ''last'')])
       = ''user_name=last''"
    by code_simp+
  have "\<not> sublist ''a b'' ''q=a%20b''" "\<not> sublist ''first'' ''user_name=last''"
    by code_simp+
  with f show ?thesis by simp
qed

text \<open>
  \<open>formatQuery({userIds: [1, 2], not: {labelName: "bug"}, q: "abc"})\<close> is
  \<open>user_ids[]=1&user_ids[]=2&not[label_name]=bug&q=abc\<close>.
\<close>

theorem query_format_witness:
  "formatQuery (Some [(''userIds'', JArr [JNum 1, JNum 2]),
                         (''not'', JObj [(''labelName'', JStr ''bug'')]), (''q'', JStr ''abc'')])
       = ''user_ids[]=1&user_ids[]=2&not[label_name]=bug&q=abc''
   \<and> sublist ''not[label_name]=bug''
       (formatQuery (Some [(''userIds'', JArr [JNum 1, JNum 2]),
                           (''not'', JObj [(''labelName'', JStr ''bug'')]), (''q'', JStr ''abc'')]))
   \<and> sublist ''user_ids[]=2''
       (formatQuery (Some [(''userIds'', JArr [JNum 1, JNum 2]),
                           (''not'', JObj [(''labelName'', JStr ''bug'')]), (''q'', JStr ''abc'')]))
   \<and> sublist ''abc''
       (formatQuery (Some [(''userIds'', JArr [JNum 1, JNum 2]),
                           (''not'', JObj [(''labelName'', JStr ''bug'')]), (''q'', JStr ''abc'')]))
   \<and> \<not> upper_case CHR ''_''"
proof -
  let ?m = "[(''userIds'', JArr [JNum 1, JNum 2]),
             (''not'', JObj [(''labelName'', JStr ''bug'')]), (''q'', JStr ''abc'')]"
  have cf: "collision_free (JObj ?m)"
    by code_simp
  note t = query_format [of ?m]
  note g = t [THEN conjunct2, THEN conjunct2, THEN conjunct2, rule_format, OF cf]
  have e: "join ''&'' (snake_case_segments ?m)
             = ''user_ids[]=1&user_ids[]=2&not[label_name]=bug&q=abc''"
    "percent_encode (decamelize ''not'') @ render_steps [Field ''labelName''] @ ''=''
       @ percent_encode (scalar_text (JStr ''bug'')) = ''not[label_name]=bug''"
    "percent_encode (decamelize ''userIds'') @ ''[]='' @ percent_encode (scalar_text (JNum 2))
       = ''user_ids[]=2''"
    "decamelize ''userIds'' = ''user_ids''"
    by code_simp+
  have 1: "formatQuery (Some ?m) = ''user_ids[]=1&user_ids[]=2&not[label_name]=bug&q=abc''"
    using g [THEN conjunct1] by (simp only: e(1))
  have p2: "(''not'', JObj [(''labelName'', JStr ''bug'')]) \<in> set ?m
            \<and> ([Field ''labelName''], JStr ''bug'') \<in> set (leaves_at (JObj [(''labelName'', JStr ''bug'')]))"
    by simp
  have 2: "sublist ''not[label_name]=bug'' (formatQuery (Some ?m))"
    using g [THEN conjunct2, THEN conjunct1, rule_format, OF p2] by (simp only: e(2))
  have p3: "(''userIds'', JArr [JNum 1, JNum 2]) \<in> set ?m \<and> JNum 2 \<in> set [JNum 1, JNum 2]
             \<and> is_scalar (JNum 2)"
    by simp
  have 3: "sublist ''user_ids[]=2'' (formatQuery (Some ?m))"
    using g [THEN conjunct2, THEN conjunct2, THEN conjunct1, rule_format, OF p3]
    by (simp only: e(3))
  have s: "JStr ''abc'' \<in> set (scalars (JObj ?m))"
    by simp
  have u: "\<forall>c \<in> set (scalar_text (JStr ''abc'')). unreserved c"
    by (simp add: unreserved_def)
  have 4: "sublist ''abc'' (formatQuery (Some ?m))"
    using g [THEN conjunct2, THEN conjunct2, THEN conjunct2, THEN conjunct2, rule_format,
             OF s u [rule_format]]
    by simp
  have 5: "\<not> upper_case CHR ''_''"
    using t [THEN conjunct2, THEN conjunct2, THEN conjunct1, rule_format,
             of "CHR ''_''" "''userIds''"]
    by (simp add: e(4))
  from 1 2 3 4 5 show ?thesis by blast
qed

end
